theory Spec2Isabelle
  imports Main "HOL-Library.AList"
begin

section \<open>Data model of server.js\<close>

text \<open>
  The server keeps three global registries (\<open>lobbies\<close>, \<open>gameStates\<close>,
  \<open>disconnectedPlayers\<close>) and drives every game through socket handlers,
  \<open>setTimeout\<close> callbacks and one \<open>setInterval\<close> countdown per phase.

  Payload fields (\<open>code\<close>, \<open>username\<close>, \<open>vote\<close>, \<open>confession\<close>, \<open>guess\<close>) are
  strings; \<open>null\<close> is \<open>None\<close>.  A JavaScript object used as a dictionary is the map of
  its own properties, read and written as a plain object is (section \<open>Plain objects
  used as dictionaries\<close>).  GameState objects are shared by reference between
  the registry and the closures of timers, so they live in an explicit store \<open>heap\<close>
  and the registry holds addresses.  \<open>disconnectedPlayers\<close> is a \<open>Map\<close> that is iterated,
  so it is an association list in insertion order.

  Everything a handler sends goes to \<open>outbox\<close> with its destination.  Pending
  \<open>setTimeout\<close> bodies are in \<open>timeouts\<close> with their delay in milliseconds, active
  \<open>setInterval\<close> countdowns in \<open>intervals\<close>; which of them runs next is an input of
  the event loop (\<open>step\<close>), as are \<open>Date.now()\<close>, \<open>Math.random()\<close> and the lobby code
  drawn by \<open>generateLobbyCode\<close>.  Socket rooms, \<open>createdAt\<close>, logging and the static
  file routes have no part in the game state and are left out.
\<close>

type_synonym code = string
type_synonym ref = nat
type_synonym handle = nat
type_synonym socketId = nat

record participant =
  username :: string
  isHost :: bool
  connected :: bool

record lobby =
  code :: code
  host :: string
  participants :: "participant list"
  gameStarted :: bool

text \<open>
  A score is a JavaScript number.  \<open>undefined + 1\<close> and \<open>NaN + 1\<close> are \<open>NaN\<close>; a function
  or an object plus a number is a string (\<open>Text\<close>), and so is a string plus a number.
\<close>

datatype jsnum = Num int | NaN | Text

text \<open>What reading a property of a dictionary of strings gives.\<close>

datatype jsval = Undefined | Null | Str string | Inherited

type_synonym scoreTable = "string \<rightharpoonup> jsnum"

record gameState =
  phase :: string
  roundNumber :: int
  totalRounds :: int
  currentTopic :: "string option"
  initialVotes :: "string \<rightharpoonup> string"
  selectedPlayer :: "string option"
  playerInitialVote :: "string option"
  confession :: "string option"
  guesses :: "string \<rightharpoonup> string"
  scores :: scoreTable
  usedTopics :: "int list"
  timer :: int
  timerInterval :: "handle option"

record voteResults =
  yes :: int
  no :: int

record guessResults =
  honest :: int
  lied :: int

record syncView =
  svPhase :: string
  svRoundNumber :: int
  svCurrentTopic :: "string option"
  svTimer :: int
  svScores :: scoreTable
  svSelectedPlayer :: "string option"

datatype phaseExtra = NoExtra | RoundNumber int | SelectedPlayer "string option"

datatype payload =
    LobbyUpdated lobby
  | LobbyClosed
  | GameStarted lobby gameState
  | TopicSelected string
  | GamePhaseUpdate string phaseExtra
  | InitialVoteResults voteResults "string option" "string option"
  | PlayerSelected string "string option"
  | ConfessionResults guessResults string "string option"
  | ScoreboardUpdate scoreTable
  | GameEnded scoreTable
  | GameTimer int
  | SyncGameState syncView lobby jsval
  | HttpStatus nat

datatype dest = Room code | ToSocket socketId | HttpReply

text \<open>
  The callback handed to \<open>startTimer\<close> is one of three closures; the closure of
  \<open>startConfessionPhase\<close> captures the GameState object itself.
\<close>

datatype timerCallback =
    CbCalculateInitialResults
  | CbConfessionTimeout
  | CbCalculateConfessionResults

text \<open>The bodies handed to \<open>setTimeout\<close>; \<open>TScoreboardDwell\<close> captures the GameState object.\<close>

datatype task =
    TSync socketId code
  | TStartInitialVotingPhase code
  | TCalculateInitialResults code
  | TSelectRandomPlayer code
  | TStartConfessionPhase code
  | TStartGuessingPhase code
  | TCalculateConfessionResults code
  | TShowScoreboard code
  | TScoreboardDwell code ref

record socketInfo =
  sockUsername :: "string option"
  sockLobbyCode :: "string option"

record world =
  lobbies :: "code \<rightharpoonup> lobby"
  gameStates :: "code \<rightharpoonup> ref"
  heap :: "ref \<rightharpoonup> gameState"
  nextRef :: ref
  disconnectedPlayers :: "(string \<times> (code \<times> int)) list"
  intervals :: "handle \<rightharpoonup> (code \<times> ref \<times> timerCallback)"
  nextHandle :: handle
  timeouts :: "(nat \<times> task) list"
  sockets :: "socketId \<rightharpoonup> socketInfo"
  outbox :: "(dest \<times> payload) list"
  crashed :: bool

section \<open>Runtime primitives\<close>

definition emit :: "dest \<Rightarrow> payload \<Rightarrow> world \<Rightarrow> world" where
  "emit d p w = w\<lparr>outbox := outbox w @ [(d, p)]\<rparr>"

definition setTimeout :: "task \<Rightarrow> nat \<Rightarrow> world \<Rightarrow> world" where
  "setTimeout t ms w = w\<lparr>timeouts := timeouts w @ [(ms, t)]\<rparr>"

text \<open>\<open>if (gameState.timerInterval) clearInterval(gameState.timerInterval)\<close>.\<close>

definition clearInterval :: "handle option \<Rightarrow> world \<Rightarrow> world" where
  "clearInterval ho w =
     (case ho of None \<Rightarrow> w | Some h \<Rightarrow> w\<lparr>intervals := (intervals w)(h := None)\<rparr>)"

definition setGameState :: "ref \<Rightarrow> gameState \<Rightarrow> world \<Rightarrow> world" where
  "setGameState r g w = w\<lparr>heap := (heap w)(r \<mapsto> g)\<rparr>"

text \<open>\<open>gameStates.get(code)\<close>: the address and the current contents of the object.\<close>

definition getGameState :: "world \<Rightarrow> code \<Rightarrow> (ref \<times> gameState) option" where
  "getGameState w c =
     (case gameStates w c of
        None \<Rightarrow> None
      | Some r \<Rightarrow> (case heap w r of None \<Rightarrow> None | Some g \<Rightarrow> Some (r, g)))"

text \<open>\<open>participants.find(p => p.username === u)\<close> followed by \<open>participant.connected = b\<close>.\<close>

fun setConnected :: "string \<Rightarrow> bool \<Rightarrow> participant list \<Rightarrow> participant list" where
  "setConnected u b [] = []"
| "setConnected u b (p # ps) =
     (if username p = u then p\<lparr>connected := b\<rparr> # ps else p # setConnected u b ps)"

definition hasParticipant :: "string \<Rightarrow> participant list \<Rightarrow> bool" where
  "hasParticipant u ps = (find (\<lambda>p. username p = u) ps \<noteq> None)"

text \<open>\<open>participants.filter(p => p.username !== u)\<close>.\<close>

definition removeParticipant :: "string \<Rightarrow> participant list \<Rightarrow> participant list" where
  "removeParticipant u ps = filter (\<lambda>p. username p \<noteq> u) ps"

section \<open>Plain objects used as dictionaries\<close>

text \<open>
  \<open>initialVotes\<close>, \<open>guesses\<close> and \<open>scores\<close> are object literals \<open>{}\<close> written and read
  under a username.  The map holds the own properties of the object; the rest comes
  from \<open>Object.prototype\<close>, whose property names are \<open>objectPrototypeKeys\<close>.
\<close>

definition objectPrototypeKeys :: "string list" where
  "objectPrototypeKeys =
     [''constructor'', ''__defineGetter__'', ''__defineSetter__'', ''hasOwnProperty'',
      ''__lookupGetter__'', ''__lookupSetter__'', ''isPrototypeOf'', ''propertyIsEnumerable'',
      ''toString'', ''valueOf'', ''__proto__'', ''toLocaleString'']"

text \<open>
  \<open>obj[k] = v\<close> for a string or a number \<open>v\<close>.  Under the key \<open>__proto__\<close> the
  assignment runs the inherited setter, which ignores a value that is neither an
  object nor \<open>null\<close>: no property is created.  Every other key becomes an own property.
\<close>

definition setProp :: "(string \<rightharpoonup> 'v) \<Rightarrow> string \<Rightarrow> 'v \<Rightarrow> (string \<rightharpoonup> 'v)" where
  "setProp obj k v = (if k = ''__proto__'' then obj else obj(k \<mapsto> v))"

text \<open>The own property under \<open>k\<close>, if there is one; there is none under \<open>__proto__\<close>.\<close>

definition ownProp :: "(string \<rightharpoonup> 'v) \<Rightarrow> string \<Rightarrow> 'v option" where
  "ownProp obj k = (if k = ''__proto__'' then None else obj k)"

text \<open>
  \<open>obj[k]\<close> on a dictionary of strings: the own property, else what \<open>Object.prototype\<close>
  has under that name (a function or an object, equal to no string), else
  \<open>undefined\<close>.
\<close>

definition readProp :: "(string \<rightharpoonup> string) \<Rightarrow> string \<Rightarrow> jsval" where
  "readProp obj k =
     (case ownProp obj k of
        Some v \<Rightarrow> Str v
      | None \<Rightarrow> (if k \<in> set objectPrototypeKeys then Inherited else Undefined))"

text \<open>
  \<open>obj.hasOwnProperty(k)\<close> looks the method up on the object first.  Once a value has
  been stored under the key \<open>hasOwnProperty\<close> the lookup finds that string and the
  call throws a TypeError.
\<close>

definition hasOwnPropertyShadowed :: "(string \<rightharpoonup> 'v) \<Rightarrow> bool" where
  "hasOwnPropertyShadowed obj = (ownProp obj ''hasOwnProperty'' \<noteq> None)"

definition hasOwnProperty :: "(string \<rightharpoonup> 'v) \<Rightarrow> string \<Rightarrow> bool" where
  "hasOwnProperty obj k = (ownProp obj k \<noteq> None)"

text \<open>
  \<open>scores[u] += k\<close>: the value read is the own property, else the inherited function or
  object (the sum is then a string), else \<open>undefined\<close> (the sum is \<open>NaN\<close>).
\<close>

definition addScore :: "scoreTable \<Rightarrow> string \<Rightarrow> int \<Rightarrow> scoreTable" where
  "addScore sc u k =
     setProp sc u
       (case ownProp sc u of
          Some (Num n) \<Rightarrow> Num (n + k)
        | Some NaN \<Rightarrow> NaN
        | Some Text \<Rightarrow> Text
        | None \<Rightarrow> (if u \<in> set objectPrototypeKeys then Text else NaN))"

text \<open>\<open>participants.forEach(p => { scores[p.username] = 0 })\<close>.\<close>

definition seedScores :: "participant list \<Rightarrow> scoreTable \<Rightarrow> scoreTable" where
  "seedScores ps sc = fold (\<lambda>p s. setProp s (username p) (Num 0)) ps sc"

section \<open>Game logic functions\<close>

text \<open>
  \<open>endGame\<close> clears the recorded interval and broadcasts the final scores.  It assigns
  neither \<open>phase\<close> nor \<open>timerInterval\<close>.
\<close>

definition endGame :: "code \<Rightarrow> world \<Rightarrow> world" where
  "endGame c w =
     (case getGameState w c of
        None \<Rightarrow> w
      | Some (r, g) \<Rightarrow>
          emit (Room c) (GameEnded (scores g)) (clearInterval (timerInterval g) w))"

definition startTimer :: "code \<Rightarrow> int \<Rightarrow> timerCallback \<Rightarrow> world \<Rightarrow> world" where
  "startTimer c seconds cb w =
     (case getGameState w c of
        None \<Rightarrow> w
      | Some (r, g) \<Rightarrow>
          (let w1 = clearInterval (timerInterval g) w;
               h = nextHandle w1
           in setGameState r (g\<lparr>timer := seconds, timerInterval := Some h\<rparr>)
                (w1\<lparr>intervals := (intervals w1)(h \<mapsto> (c, r, cb)), nextHandle := Suc h\<rparr>)))"

text \<open>The first loop of \<open>calculateInitialResults\<close>: only connected participants are counted.\<close>

definition countVote :: "(string \<rightharpoonup> string) \<Rightarrow> participant \<Rightarrow> voteResults \<Rightarrow> voteResults" where
  "countVote votes p vr =
     (if connected p then
        (if ownProp votes (username p) = Some ''yes'' then vr\<lparr>yes := yes vr + 1\<rparr>
         else if ownProp votes (username p) = Some ''no'' then vr\<lparr>no := no vr + 1\<rparr>
         else vr)
      else vr)"

definition countVotes :: "(string \<rightharpoonup> string) \<Rightarrow> participant list \<Rightarrow> voteResults" where
  "countVotes votes ps = fold (countVote votes) ps \<lparr>yes = 0, no = 0\<rparr>"

definition majorityOf :: "voteResults \<Rightarrow> string option" where
  "majorityOf vr =
     (if yes vr > no vr then Some ''yes''
      else if no vr > yes vr then Some ''no''
      else None)"

text \<open>The second loop: every roster entry whose recorded vote is the majority option.\<close>

definition awardVote :: "string \<Rightarrow> (string \<rightharpoonup> string) \<Rightarrow> participant \<Rightarrow> scoreTable \<Rightarrow> scoreTable" where
  "awardVote m votes p sc =
     (if ownProp votes (username p) = Some m then addScore sc (username p) 1 else sc)"

definition awardMajority :: "string option \<Rightarrow> (string \<rightharpoonup> string) \<Rightarrow> participant list \<Rightarrow> scoreTable \<Rightarrow> scoreTable" where
  "awardMajority mo votes ps sc =
     (case mo of None \<Rightarrow> sc | Some m \<Rightarrow> fold (awardVote m votes) ps sc)"

definition calculateInitialResults :: "code \<Rightarrow> world \<Rightarrow> world" where
  "calculateInitialResults c w =
     (case getGameState w c of
        None \<Rightarrow> w
      | Some (r, g) \<Rightarrow>
          (case lobbies w c of
             None \<Rightarrow> w
           | Some l \<Rightarrow>
               (let vr = countVotes (initialVotes g) (participants l);
                    majorityVote = majorityOf vr;
                    g1 = g\<lparr>scores := awardMajority majorityVote (initialVotes g) (participants l) (scores g),
                           phase := ''initial-results''\<rparr>;
                    w1 = setGameState r g1 w;
                    w2 = emit (Room c) (GamePhaseUpdate ''initial-results'' NoExtra) w1;
                    w3 = emit (Room c) (InitialVoteResults vr majorityVote (currentTopic g1)) w2
                in setTimeout (TSelectRandomPlayer c) 4000 w3)))"

text \<open>
  \<open>Math.floor(Math.random() * n)\<close> is some index below \<open>n\<close>; the draw is an input
  \<open>rnd\<close> of the model and the index is \<open>rnd mod n\<close>.
\<close>

definition randomIndex :: "nat \<Rightarrow> nat \<Rightarrow> nat" where
  "randomIndex rnd n = rnd mod n"

text \<open>\<open>topics.filter((topic, index) => !usedTopics.includes(index))\<close>.\<close>

definition availableTopics :: "string list \<Rightarrow> int list \<Rightarrow> string list" where
  "availableTopics topics used =
     map snd (filter (\<lambda>(i, t). int i \<notin> set used) (enumerate 0 topics))"

text \<open>\<open>Array.prototype.indexOf\<close>: the first position holding an equal string, else -1.\<close>

fun indexOfFrom :: "string list \<Rightarrow> string \<Rightarrow> int \<Rightarrow> int" where
  "indexOfFrom [] x i = - 1"
| "indexOfFrom (y # ys) x i = (if y = x then i else indexOfFrom ys x (i + 1))"

definition indexOf :: "string list \<Rightarrow> string \<Rightarrow> int" where
  "indexOf xs x = indexOfFrom xs x 0"

definition startInitialVotingPhase :: "string list \<Rightarrow> nat \<Rightarrow> code \<Rightarrow> world \<Rightarrow> world" where
  "startInitialVotingPhase topics rnd c w =
     (case getGameState w c of
        None \<Rightarrow> w
      | Some (r, g) \<Rightarrow>
          (case lobbies w c of
             None \<Rightarrow> w
           | Some l \<Rightarrow>
               (let avail = availableTopics topics (usedTopics g) in
                if length avail = 0 then endGame c w
                else
                  (let selectedTopic = avail ! randomIndex rnd (length avail);
                       originalIndex = indexOf topics selectedTopic;
                       g1 = g\<lparr>currentTopic := Some selectedTopic,
                              usedTopics := usedTopics g @ [originalIndex],
                              phase := ''initial-voting'',
                              initialVotes := Map.empty,
                              selectedPlayer := None,
                              playerInitialVote := None,
                              confession := None,
                              guesses := Map.empty,
                              timer := 30\<rparr>;
                       w1 = clearInterval (timerInterval g1) (setGameState r g1 w);
                       w2 = emit (Room c) (TopicSelected selectedTopic) w1;
                       w3 = emit (Room c)
                              (GamePhaseUpdate ''initial-voting'' (RoundNumber (roundNumber g1))) w2
                   in startTimer c 30 CbCalculateInitialResults w3))))"

text \<open>
  The filter of \<open>selectRandomPlayer\<close> calls \<open>initialVotes.hasOwnProperty\<close> for every
  connected participant.  It runs inside a \<open>setTimeout\<close> callback, so the TypeError of a
  shadowed method is uncaught (\<open>crashed\<close>).
\<close>

definition selectRandomPlayer :: "nat \<Rightarrow> code \<Rightarrow> world \<Rightarrow> world" where
  "selectRandomPlayer rnd c w =
     (case getGameState w c of
        None \<Rightarrow> w
      | Some (r, g) \<Rightarrow>
          (case lobbies w c of
             None \<Rightarrow> w
           | Some l \<Rightarrow>
               (if filter connected (participants l) \<noteq> [] \<and>
                   hasOwnPropertyShadowed (initialVotes g)
                then w\<lparr>crashed := True\<rparr>
                else
                  (let eligiblePlayers =
                         filter (\<lambda>p. connected p \<and> hasOwnProperty (initialVotes g) (username p))
                           (participants l) in
                   if length eligiblePlayers = 0 then endGame c w
                   else
                     (let selected = eligiblePlayers ! randomIndex rnd (length eligiblePlayers);
                          g1 = g\<lparr>selectedPlayer := Some (username selected),
                                 playerInitialVote := ownProp (initialVotes g) (username selected),
                                 phase := ''player-selection''\<rparr>;
                          w1 = setGameState r g1 w;
                          w2 = emit (Room c)
                                 (GamePhaseUpdate ''player-selection''
                                    (SelectedPlayer (Some (username selected)))) w1;
                          w3 = emit (Room c)
                                 (PlayerSelected (username selected) (playerInitialVote g1)) w2
                      in setTimeout (TStartConfessionPhase c) 3000 w3)))))"

definition startConfessionPhase :: "code \<Rightarrow> world \<Rightarrow> world" where
  "startConfessionPhase c w =
     (case getGameState w c of
        None \<Rightarrow> w
      | Some (r, g) \<Rightarrow>
          (let g1 = g\<lparr>phase := ''confession'', confession := None, timer := 60\<rparr>;
               w1 = setGameState r g1 w;
               w2 = emit (Room c)
                      (GamePhaseUpdate ''confession'' (SelectedPlayer (selectedPlayer g1))) w1
           in startTimer c 60 CbConfessionTimeout w2))"

definition startGuessingPhase :: "code \<Rightarrow> world \<Rightarrow> world" where
  "startGuessingPhase c w =
     (case getGameState w c of
        None \<Rightarrow> w
      | Some (r, g) \<Rightarrow>
          (let g1 = g\<lparr>phase := ''guessing'', guesses := Map.empty, timer := 30\<rparr>;
               w1 = setGameState r g1 w;
               w2 = emit (Room c)
                      (GamePhaseUpdate ''guessing'' (SelectedPlayer (selectedPlayer g1))) w1
           in startTimer c 30 CbCalculateConfessionResults w2))"

text \<open>
  An eligible guesser is connected and is not the selected player
  (\<open>participant.connected && participant.username !== gameState.selectedPlayer\<close>).
\<close>

definition eligibleGuesser :: "string option \<Rightarrow> participant \<Rightarrow> bool" where
  "eligibleGuesser sel p = (connected p \<and> Some (username p) \<noteq> sel)"

definition countGuess :: "(string \<rightharpoonup> string) \<Rightarrow> string option \<Rightarrow> participant \<Rightarrow> guessResults \<Rightarrow> guessResults" where
  "countGuess gs sel p gr =
     (if eligibleGuesser sel p then
        (if ownProp gs (username p) = Some ''true'' then gr\<lparr>honest := honest gr + 1\<rparr>
         else if ownProp gs (username p) = Some ''false'' then gr\<lparr>lied := lied gr + 1\<rparr>
         else gr)
      else gr)"

definition countGuesses :: "(string \<rightharpoonup> string) \<Rightarrow> string option \<Rightarrow> participant list \<Rightarrow> guessResults" where
  "countGuesses gs sel ps = fold (countGuess gs sel) ps \<lparr>honest = 0, lied = 0\<rparr>"

text \<open>\<open>gameState.confession || 'true'\<close>: \<open>null\<close> and the empty string are falsy.\<close>

definition actualConfession :: "gameState \<Rightarrow> string" where
  "actualConfession g =
     (case confession g of
        None \<Rightarrow> ''true''
      | Some cf \<Rightarrow> (if cf = [] then ''true'' else cf))"

definition awardGuess :: "string \<Rightarrow> (string \<rightharpoonup> string) \<Rightarrow> string option \<Rightarrow> participant \<Rightarrow> scoreTable \<Rightarrow> scoreTable" where
  "awardGuess actual gs sel p sc =
     (if eligibleGuesser sel p then
        (if ownProp gs (username p) = Some actual then addScore sc (username p) 3 else sc)
      else sc)"

definition awardGuesses :: "string \<Rightarrow> (string \<rightharpoonup> string) \<Rightarrow> string option \<Rightarrow> participant list \<Rightarrow> scoreTable \<Rightarrow> scoreTable" where
  "awardGuesses actual gs sel ps sc = fold (awardGuess actual gs sel) ps sc"

definition showScoreboard :: "code \<Rightarrow> world \<Rightarrow> world" where
  "showScoreboard c w =
     (case getGameState w c of
        None \<Rightarrow> w
      | Some (r, g) \<Rightarrow>
          (let g1 = g\<lparr>phase := ''scoreboard''\<rparr>;
               w1 = setGameState r g1 w;
               w2 = emit (Room c) (GamePhaseUpdate ''scoreboard'' NoExtra) w1;
               w3 = emit (Room c) (ScoreboardUpdate (scores g1)) w2
           in setTimeout (TScoreboardDwell c r) 5000 w3))"

definition calculateConfessionResults :: "code \<Rightarrow> world \<Rightarrow> world" where
  "calculateConfessionResults c w =
     (case getGameState w c of
        None \<Rightarrow> w
      | Some (r, g) \<Rightarrow>
          (case lobbies w c of
             None \<Rightarrow> w
           | Some l \<Rightarrow>
               (let gr = countGuesses (guesses g) (selectedPlayer g) (participants l);
                    actual = actualConfession g;
                    g1 = g\<lparr>scores := awardGuesses actual (guesses g) (selectedPlayer g)
                                       (participants l) (scores g),
                           phase := ''confession-results''\<rparr>;
                    w1 = setGameState r g1 w;
                    w2 = emit (Room c) (GamePhaseUpdate ''confession-results'' NoExtra) w1;
                    w3 = emit (Room c) (ConfessionResults gr actual (selectedPlayer g1)) w2
                in setTimeout (TShowScoreboard c) 5000 w3)))"

text \<open>
  The body of the 5 second timeout of \<open>showScoreboard\<close>.  The closure works on the
  GameState object it captured (address \<open>r\<close>); \<open>endGame\<close> looks the code up again.
\<close>

definition scoreboardDwell :: "string list \<Rightarrow> code \<Rightarrow> ref \<Rightarrow> world \<Rightarrow> world" where
  "scoreboardDwell topics c r w =
     (case heap w r of
        None \<Rightarrow> w
      | Some g \<Rightarrow>
          (let g1 = g\<lparr>roundNumber := roundNumber g + 1\<rparr>;
               w1 = setGameState r g1 w in
           if roundNumber g1 > totalRounds g1 \<or> length (usedTopics g1) \<ge> length topics
           then endGame c w1
           else
             (let w2 = setGameState r (g1\<lparr>phase := ''waiting''\<rparr>) w1;
                  w3 = emit (Room c) (GamePhaseUpdate ''waiting'' NoExtra) w2
              in setTimeout (TStartInitialVotingPhase c) 3000 w3)))"

text \<open>The three callbacks of \<open>startTimer\<close>, run when the countdown reaches zero.\<close>

definition runTimerCallback :: "timerCallback \<Rightarrow> code \<Rightarrow> ref \<Rightarrow> world \<Rightarrow> world" where
  "runTimerCallback cb c r w =
     (case cb of
        CbCalculateInitialResults \<Rightarrow> calculateInitialResults c w
      | CbConfessionTimeout \<Rightarrow>
          startGuessingPhase c
            (case heap w r of
               None \<Rightarrow> w
             | Some g \<Rightarrow>
                 (if confession g = None then setGameState r (g\<lparr>confession := Some ''true''\<rparr>) w
                  else w))
      | CbCalculateConfessionResults \<Rightarrow> calculateConfessionResults c w)"

text \<open>
  One firing of the interval installed by \<open>startTimer\<close>.  An interval that has been
  cleared is no longer in \<open>intervals\<close> and does not fire.
\<close>

definition timerTick :: "handle \<Rightarrow> world \<Rightarrow> world" where
  "timerTick h w =
     (case intervals w h of
        None \<Rightarrow> w
      | Some (c, r, cb) \<Rightarrow>
          (case heap w r of
             None \<Rightarrow> w
           | Some g \<Rightarrow>
               (let g1 = g\<lparr>timer := timer g - 1\<rparr>;
                    w1 = emit (Room c) (GameTimer (timer g1)) (setGameState r g1 w) in
                if timer g1 \<le> 0 then
                  (let w2 = clearInterval (timerInterval g1) w1;
                       w3 = setGameState r (g1\<lparr>timerInterval := None\<rparr>) w2
                   in runTimerCallback cb c r w3)
                else w1)))"

section \<open>Sync service\<close>

text \<open>
  \<open>socket.username\<close> is \<open>undefined\<close> until the socket has sent \<open>join-lobby\<close>; as a
  property key \<open>undefined\<close> is the string \<open>undefined\<close>.
\<close>

definition socketKey :: "socketInfo \<Rightarrow> string" where
  "socketKey s = (case sockUsername s of None \<Rightarrow> ''undefined'' | Some u \<Rightarrow> u)"

definition syncGameStateToPlayer :: "socketId \<Rightarrow> code \<Rightarrow> world \<Rightarrow> world" where
  "syncGameStateToPlayer sid c w =
     (case getGameState w c of
        None \<Rightarrow> w
      | Some (r, g) \<Rightarrow>
          (case lobbies w c of
             None \<Rightarrow> w
           | Some l \<Rightarrow>
               (case sockets w sid of
                  None \<Rightarrow> w
                | Some s \<Rightarrow>
                    (let userVote =
                           (if phase g = ''initial-voting'' \<or> phase g = ''initial-results'' then
                              readProp (initialVotes g) (socketKey s)
                            else if phase g = ''confession'' then
                              (case confession g of None \<Rightarrow> Null | Some cf \<Rightarrow> Str cf)
                            else if phase g = ''guessing'' \<or> phase g = ''confession-results'' then
                              readProp (guesses g) (socketKey s)
                            else Null)
                     in emit (ToSocket sid)
                          (SyncGameState
                             \<lparr>svPhase = phase g, svRoundNumber = roundNumber g,
                              svCurrentTopic = currentTopic g, svTimer = timer g,
                              svScores = scores g, svSelectedPlayer = selectedPlayer g\<rparr>
                             l userVote) w))))"

section \<open>HTTP routes\<close>

text \<open>\<open>POST /api/lobby/create\<close>; the code drawn by \<open>generateLobbyCode\<close> is an input.\<close>

definition httpCreate :: "code \<Rightarrow> string \<Rightarrow> world \<Rightarrow> world" where
  "httpCreate c u w =
     (if length u < 2 then emit HttpReply (HttpStatus 400) w
      else
        (let l = \<lparr>code = c, host = u,
                  participants = [\<lparr>username = u, isHost = True, connected = True\<rparr>],
                  gameStarted = False\<rparr>
         in emit HttpReply (HttpStatus 200) (w\<lparr>lobbies := (lobbies w)(c \<mapsto> l)\<rparr>)))"

text \<open>\<open>POST /api/lobby/join\<close>: a known username reconnects, a new one is appended.\<close>

definition httpJoin :: "code \<Rightarrow> string \<Rightarrow> world \<Rightarrow> world" where
  "httpJoin c u w =
     (if c = [] \<or> u = [] then emit HttpReply (HttpStatus 400) w
      else
        (case lobbies w c of
           None \<Rightarrow> emit HttpReply (HttpStatus 404) w
         | Some l \<Rightarrow>
             (if hasParticipant u (participants l) then
                emit HttpReply (HttpStatus 200)
                  (w\<lparr>lobbies := (lobbies w)
                        (c \<mapsto> l\<lparr>participants := setConnected u True (participants l)\<rparr>)\<rparr>)
              else
                (let l1 = l\<lparr>participants := participants l @
                              [\<lparr>username = u, isHost = False, connected = True\<rparr>]\<rparr>;
                     w1 = w\<lparr>lobbies := (lobbies w)(c \<mapsto> l1)\<rparr>;
                     w2 = (case getGameState w1 c of
                             None \<Rightarrow> w1
                           | Some (r, g) \<Rightarrow>
                               setGameState r (g\<lparr>scores := setProp (scores g) u (Num 0)\<rparr>) w1)
                 in emit HttpReply (HttpStatus 200) w2))))"

section \<open>Socket handlers\<close>

text \<open>\<open>gameState && gameState.phase !== 'waiting'\<close>, the test of three handlers.\<close>

definition gameActive :: "world \<Rightarrow> code \<Rightarrow> bool" where
  "gameActive w c =
     (case getGameState w c of None \<Rightarrow> False | Some (r, g) \<Rightarrow> phase g \<noteq> ''waiting'')"

definition joinLobby :: "socketId \<Rightarrow> code \<Rightarrow> string \<Rightarrow> world \<Rightarrow> world" where
  "joinLobby sid c u w =
     (let w1 = w\<lparr>sockets := (sockets w)
                   (sid \<mapsto> \<lparr>sockUsername = Some u, sockLobbyCode = Some c\<rparr>)\<rparr> in
      case lobbies w1 c of
        None \<Rightarrow> w1
      | Some l \<Rightarrow>
          (let l1 = l\<lparr>participants := setConnected u True (participants l)\<rparr>;
               w2 = w1\<lparr>lobbies := (lobbies w1)(c \<mapsto> l1)\<rparr>;
               w3 = (if gameActive w2 c then setTimeout (TSync sid c) 1000 w2 else w2)
           in emit (Room c) (LobbyUpdated l1) w3))"

text \<open>\<open>Date.now()\<close> is the input \<open>now\<close> of the two handlers that record a disconnection.\<close>

definition markDisconnected :: "code \<Rightarrow> string \<Rightarrow> int \<Rightarrow> lobby \<Rightarrow> world \<Rightarrow> world" where
  "markDisconnected c u now l w =
     w\<lparr>lobbies := (lobbies w)(c \<mapsto> l\<lparr>participants := setConnected u False (participants l)\<rparr>),
       disconnectedPlayers := AList.update u (c, now) (disconnectedPlayers w)\<rparr>"

definition leaveLobby :: "code \<Rightarrow> string \<Rightarrow> int \<Rightarrow> world \<Rightarrow> world" where
  "leaveLobby c u now w =
     (case lobbies w c of
        None \<Rightarrow> w
      | Some l \<Rightarrow>
          (if gameActive w c then
             (let w1 = (if hasParticipant u (participants l) then markDisconnected c u now l w
                        else w)
              in case lobbies w1 c of
                   None \<Rightarrow> w1
                 | Some l1 \<Rightarrow> emit (Room c) (LobbyUpdated l1) w1)
           else
             (let l1 = l\<lparr>participants := removeParticipant u (participants l)\<rparr> in
              if length (participants l1) = 0 \<or> u = host l1 then
                emit (Room c) LobbyClosed
                  (w\<lparr>lobbies := (lobbies w)(c := None), gameStates := (gameStates w)(c := None)\<rparr>)
              else
                emit (Room c) (LobbyUpdated l1) (w\<lparr>lobbies := (lobbies w)(c \<mapsto> l1)\<rparr>))))"

definition startGame :: "code \<Rightarrow> string \<Rightarrow> world \<Rightarrow> world" where
  "startGame c u w =
     (case lobbies w c of
        None \<Rightarrow> w
      | Some l \<Rightarrow>
          (if host l = u \<and> length (participants l) \<ge> 2 then
             (let l1 = l\<lparr>gameStarted := True\<rparr>;
                  g = \<lparr>phase = ''initial-voting'', roundNumber = 1, totalRounds = 15,
                       currentTopic = None, initialVotes = Map.empty, selectedPlayer = None,
                       playerInitialVote = None, confession = None, guesses = Map.empty,
                       scores = seedScores (participants l1) Map.empty, usedTopics = [],
                       timer = 30, timerInterval = None\<rparr>;
                  r = nextRef w;
                  w1 = w\<lparr>lobbies := (lobbies w)(c \<mapsto> l1),
                         heap := (heap w)(r \<mapsto> g),
                         nextRef := Suc r,
                         gameStates := (gameStates w)(c \<mapsto> r)\<rparr>;
                  w2 = emit (Room c) (GameStarted l1 g) w1
              in setTimeout (TStartInitialVotingPhase c) 2000 w2)
           else w))"

text \<open>
  \<open>cast-initial-vote\<close>.  \<open>lobbies.get(code)\<close> is dereferenced unchecked: with no lobby
  the handler throws, which is the flag \<open>crashed\<close>.  \<open>every\<close> calls
  \<open>initialVotes.hasOwnProperty\<close> on the first connected player, so with a connected
  player and the method shadowed the handler throws as well, after the vote has been
  stored and before anything is scheduled.
\<close>

definition castInitialVote :: "code \<Rightarrow> string \<Rightarrow> string \<Rightarrow> world \<Rightarrow> world" where
  "castInitialVote c u vote w =
     (case getGameState w c of
        None \<Rightarrow> w
      | Some (r, g) \<Rightarrow>
          (if phase g = ''initial-voting'' then
             (let g1 = g\<lparr>initialVotes := setProp (initialVotes g) u vote\<rparr>;
                  w1 = setGameState r g1 w in
              case lobbies w1 c of
                None \<Rightarrow> w1\<lparr>crashed := True\<rparr>
              | Some l \<Rightarrow>
                  (let connectedPlayers = filter connected (participants l) in
                   if connectedPlayers \<noteq> [] \<and> hasOwnPropertyShadowed (initialVotes g1)
                   then w1\<lparr>crashed := True\<rparr>
                   else
                     (let allPlayersVoted =
                            list_all (\<lambda>p. hasOwnProperty (initialVotes g1) (username p))
                              connectedPlayers
                      in if allPlayersVoted then
                           (let timeElapsed = 30 - timer g1;
                                minimumVotingTime = 15
                            in if timeElapsed \<ge> minimumVotingTime then
                                 setTimeout (TCalculateInitialResults c) 1000
                                   (setGameState r (g1\<lparr>timerInterval := None\<rparr>)
                                      (clearInterval (timerInterval g1) w1))
                               else w1)
                         else w1)))
           else w))"

definition makeConfession :: "code \<Rightarrow> string \<Rightarrow> string \<Rightarrow> world \<Rightarrow> world" where
  "makeConfession c u cf w =
     (case getGameState w c of
        None \<Rightarrow> w
      | Some (r, g) \<Rightarrow>
          (if phase g = ''confession'' \<and> selectedPlayer g = Some u then
             (let g1 = g\<lparr>confession := Some cf\<rparr>;
                  w1 = setGameState r g1 w
              in setTimeout (TStartGuessingPhase c) 1000
                   (setGameState r (g1\<lparr>timerInterval := None\<rparr>)
                      (clearInterval (timerInterval g1) w1)))
           else w))"

text \<open>\<open>make-guess\<close> has the shape of \<open>cast-initial-vote\<close>, on \<open>guesses\<close>.\<close>

definition makeGuess :: "code \<Rightarrow> string \<Rightarrow> string \<Rightarrow> world \<Rightarrow> world" where
  "makeGuess c u gs w =
     (case getGameState w c of
        None \<Rightarrow> w
      | Some (r, g) \<Rightarrow>
          (if phase g = ''guessing'' \<and> Some u \<noteq> selectedPlayer g then
             (let g1 = g\<lparr>guesses := setProp (guesses g) u gs\<rparr>;
                  w1 = setGameState r g1 w in
              case lobbies w1 c of
                None \<Rightarrow> w1\<lparr>crashed := True\<rparr>
              | Some l \<Rightarrow>
                  (let connectedPlayers = filter connected (participants l);
                       playersWhoCanGuess =
                         filter (\<lambda>p. Some (username p) \<noteq> selectedPlayer g1) connectedPlayers
                   in
                   if playersWhoCanGuess \<noteq> [] \<and> hasOwnPropertyShadowed (guesses g1)
                   then w1\<lparr>crashed := True\<rparr>
                   else
                     (let allPlayersGuessed =
                            list_all (\<lambda>p. hasOwnProperty (guesses g1) (username p))
                              playersWhoCanGuess
                      in if allPlayersGuessed then
                           (let timeElapsed = 30 - timer g1;
                                minimumGuessingTime = 15
                            in if timeElapsed \<ge> minimumGuessingTime then
                                 setTimeout (TCalculateConfessionResults c) 1000
                                   (setGameState r (g1\<lparr>timerInterval := None\<rparr>)
                                      (clearInterval (timerInterval g1) w1))
                               else w1)
                         else w1)))
           else w))"

text \<open>
  \<open>restart-game\<close> resets the GameState object in place.  It seeds a zero score for
  every roster entry and leaves every other key of \<open>scores\<close> as it is; it clears the
  interval without resetting \<open>timerInterval\<close>.
\<close>

definition restartGame :: "socketId \<Rightarrow> code \<Rightarrow> world \<Rightarrow> world" where
  "restartGame sid c w =
     (case lobbies w c of
        None \<Rightarrow> w
      | Some l \<Rightarrow>
          (case getGameState w c of
             None \<Rightarrow> w
           | Some (r, g) \<Rightarrow>
               (if (case sockets w sid of None \<Rightarrow> None | Some s \<Rightarrow> sockUsername s) = Some (host l)
                then
                  (let g1 = g\<lparr>phase := ''initial-voting'', roundNumber := 1, currentTopic := None,
                              initialVotes := Map.empty, selectedPlayer := None,
                              playerInitialVote := None, confession := None,
                              guesses := Map.empty, usedTopics := [], timer := 30,
                              scores := seedScores (participants l) (scores g)\<rparr>;
                       w1 = clearInterval (timerInterval g1) (setGameState r g1 w);
                       w2 = emit (Room c) (GameStarted l g1) w1
                   in setTimeout (TStartInitialVotingPhase c) 2000 w2)
                else w)))"

definition disconnectFrom :: "code \<Rightarrow> string \<Rightarrow> int \<Rightarrow> world \<Rightarrow> world" where
  "disconnectFrom c u now w =
     (case lobbies w c of
        None \<Rightarrow> w
      | Some l \<Rightarrow>
          (if hasParticipant u (participants l) then
             (if gameActive w c then
                (let w1 = markDisconnected c u now l w in
                 case lobbies w1 c of
                   None \<Rightarrow> w1
                 | Some l1 \<Rightarrow> emit (Room c) (LobbyUpdated l1) w1)
              else
                (let l1 = l\<lparr>participants := removeParticipant u (participants l)\<rparr> in
                 if length (participants l1) = 0 \<or> u = host l1 then
                   (let w1 = (case getGameState w c of
                                None \<Rightarrow> w
                              | Some (r, g) \<Rightarrow> clearInterval (timerInterval g) w)
                    in emit (Room c) LobbyClosed
                         (w1\<lparr>lobbies := (lobbies w1)(c := None),
                             gameStates := (gameStates w1)(c := None)\<rparr>))
                 else
                   emit (Room c) (LobbyUpdated l1) (w\<lparr>lobbies := (lobbies w)(c \<mapsto> l1)\<rparr>)))
           else w))"

text \<open>\<open>if (socket.lobbyCode && socket.username)\<close>: both set and non-empty.\<close>

definition disconnect :: "socketId \<Rightarrow> int \<Rightarrow> world \<Rightarrow> world" where
  "disconnect sid now w =
     (case sockets w sid of
        None \<Rightarrow> w
      | Some s \<Rightarrow>
          (let w1 = (case sockLobbyCode s of
                       None \<Rightarrow> w
                     | Some c \<Rightarrow>
                         (case sockUsername s of
                            None \<Rightarrow> w
                          | Some u \<Rightarrow> (if c \<noteq> [] \<and> u \<noteq> [] then disconnectFrom c u now w else w)))
           in w1\<lparr>sockets := (sockets w1)(sid := None)\<rparr>))"

section \<open>Presence sweep\<close>

text \<open>
  The 60 second \<open>setInterval\<close> over \<open>disconnectedPlayers\<close>.  An entry older than five
  minutes has its username filtered out of the roster of its lobby and is deleted.
\<close>

definition sweepEntry :: "string \<Rightarrow> code \<Rightarrow> world \<Rightarrow> world" where
  "sweepEntry u c w =
     (let w1 = (case lobbies w c of
                  None \<Rightarrow> w
                | Some l \<Rightarrow>
                    (let l1 = l\<lparr>participants := removeParticipant u (participants l)\<rparr>
                     in emit (Room c) (LobbyUpdated l1) (w\<lparr>lobbies := (lobbies w)(c \<mapsto> l1)\<rparr>)))
      in w1\<lparr>disconnectedPlayers := AList.delete u (disconnectedPlayers w1)\<rparr>)"

fun sweepEntries :: "int \<Rightarrow> (string \<times> (code \<times> int)) list \<Rightarrow> world \<Rightarrow> world" where
  "sweepEntries now [] w = w"
| "sweepEntries now ((u, (c, ts)) # es) w =
     sweepEntries now es (if now - ts > 5 * 60 * 1000 then sweepEntry u c w else w)"

definition sweep :: "int \<Rightarrow> world \<Rightarrow> world" where
  "sweep now w = sweepEntries now (disconnectedPlayers w) w"

section \<open>The event loop\<close>

definition runTask :: "string list \<Rightarrow> nat \<Rightarrow> task \<Rightarrow> world \<Rightarrow> world" where
  "runTask topics rnd t w =
     (case t of
        TSync sid c \<Rightarrow> syncGameStateToPlayer sid c w
      | TStartInitialVotingPhase c \<Rightarrow> startInitialVotingPhase topics rnd c w
      | TCalculateInitialResults c \<Rightarrow> calculateInitialResults c w
      | TSelectRandomPlayer c \<Rightarrow> selectRandomPlayer rnd c w
      | TStartConfessionPhase c \<Rightarrow> startConfessionPhase c w
      | TStartGuessingPhase c \<Rightarrow> startGuessingPhase c w
      | TCalculateConfessionResults c \<Rightarrow> calculateConfessionResults c w
      | TShowScoreboard c \<Rightarrow> showScoreboard c w
      | TScoreboardDwell c r \<Rightarrow> scoreboardDwell topics c r w)"

text \<open>The \<open>i\<close>-th pending timeout fires: it leaves the queue and its body runs.\<close>

definition fireTimeout :: "string list \<Rightarrow> nat \<Rightarrow> nat \<Rightarrow> world \<Rightarrow> world" where
  "fireTimeout topics i rnd w =
     (if i < length (timeouts w) then
        runTask topics rnd (snd (timeouts w ! i))
          (w\<lparr>timeouts := take i (timeouts w) @ drop (Suc i) (timeouts w)\<rparr>)
      else w)"

datatype event =
    HttpCreate code string
  | HttpJoin code string
  | Connect socketId
  | JoinLobby socketId code string
  | LeaveLobby socketId code string int
  | StartGame socketId code string
  | CastInitialVote socketId code string string
  | MakeConfession socketId code string string
  | MakeGuess socketId code string string
  | RequestSync socketId code
  | RestartGame socketId code
  | Disconnect socketId int
  | Sweep int
  | Timeout nat nat
  | Tick handle

text \<open>A socket event is handled only for a socket that is connected.\<close>

definition onSocket :: "socketId \<Rightarrow> (world \<Rightarrow> world) \<Rightarrow> world \<Rightarrow> world" where
  "onSocket sid f w = (if sockets w sid = None then w else f w)"

definition step :: "string list \<Rightarrow> event \<Rightarrow> world \<Rightarrow> world" where
  "step topics ev w =
     (if crashed w then w
      else
        (case ev of
           HttpCreate c u \<Rightarrow> httpCreate c u w
         | HttpJoin c u \<Rightarrow> httpJoin c u w
         | Connect sid \<Rightarrow>
             w\<lparr>sockets := (sockets w)(sid \<mapsto> \<lparr>sockUsername = None, sockLobbyCode = None\<rparr>)\<rparr>
         | JoinLobby sid c u \<Rightarrow> onSocket sid (joinLobby sid c u) w
         | LeaveLobby sid c u now \<Rightarrow> onSocket sid (leaveLobby c u now) w
         | StartGame sid c u \<Rightarrow> onSocket sid (startGame c u) w
         | CastInitialVote sid c u v \<Rightarrow> onSocket sid (castInitialVote c u v) w
         | MakeConfession sid c u cf \<Rightarrow> onSocket sid (makeConfession c u cf) w
         | MakeGuess sid c u gs \<Rightarrow> onSocket sid (makeGuess c u gs) w
         | RequestSync sid c \<Rightarrow> onSocket sid (syncGameStateToPlayer sid c) w
         | RestartGame sid c \<Rightarrow> onSocket sid (restartGame sid c) w
         | Disconnect sid now \<Rightarrow> disconnect sid now w
         | Sweep now \<Rightarrow> sweep now w
         | Timeout i rnd \<Rightarrow> fireTimeout topics i rnd w
         | Tick h \<Rightarrow> timerTick h w))"

definition run :: "string list \<Rightarrow> event list \<Rightarrow> world \<Rightarrow> world" where
  "run topics evs w = fold (step topics) evs w"

definition initialWorld :: world where
  "initialWorld =
     \<lparr>lobbies = Map.empty, gameStates = Map.empty, heap = Map.empty, nextRef = 0,
      disconnectedPlayers = [], intervals = Map.empty, nextHandle = 0, timeouts = [],
      sockets = Map.empty, outbox = [], crashed = False\<rparr>"
section \<open>Specification predicates\<close>

text \<open>
  Every GameState object of \<open>w\<close> is still in the store of \<open>w'\<close> and every key of its
  score table is still a key there.
\<close>

definition scoreKeysKept :: "world \<Rightarrow> world \<Rightarrow> bool" where
  "scoreKeysKept w w' =
     (\<forall>r g. heap w r = Some g \<longrightarrow>
        (\<exists>g'. heap w' r = Some g' \<and> dom (scores g) \<subseteq> dom (scores g')))"

text \<open>
  Addresses are handed out in order by \<open>start-game\<close>: nothing is stored at \<open>nextRef\<close> or
  beyond.  This holds initially and is kept by every event.
\<close>

definition heapFresh :: "world \<Rightarrow> bool" where
  "heapFresh w = (\<forall>r. nextRef w \<le> r \<longrightarrow> heap w r = None)"

text \<open>No roster lists a name twice.  This holds initially and is kept by every event.\<close>

definition rosterDistinct :: "world \<Rightarrow> bool" where
  "rosterDistinct w = (\<forall>c l. lobbies w c = Some l \<longrightarrow> distinct (map username (participants l)))"

text \<open>The phase stored in the GameState object at an address, if there is one.\<close>

definition phaseAt :: "world \<Rightarrow> ref \<Rightarrow> string option" where
  "phaseAt w r = map_option phase (heap w r)"

text \<open>Observations of a GameState object: its phase, round, selected player and confession, and the scores of some names.\<close>

definition gameView :: "world \<Rightarrow> ref \<Rightarrow> (string \<times> int \<times> string option \<times> string option) option" where
  "gameView w r =
     map_option (\<lambda>g. (phase g, roundNumber g, selectedPlayer g, confession g)) (heap w r)"

definition scoreView :: "world \<Rightarrow> ref \<Rightarrow> string list \<Rightarrow> jsnum option list option" where
  "scoreView w r names = map_option (\<lambda>g. map (scores g) names) (heap w r)"

text \<open>The phase and the countdown value of a GameState object with the votes of some names.\<close>

definition voteView :: "world \<Rightarrow> ref \<Rightarrow> string list \<Rightarrow> (string \<times> int \<times> string option list) option" where
  "voteView w r names =
     map_option (\<lambda>g. (phase g, timer g, map (ownProp (initialVotes g)) names)) (heap w r)"

text \<open>The same with the stored confession and the guesses of some names.\<close>

definition guessView ::
  "world \<Rightarrow> ref \<Rightarrow> string list \<Rightarrow> (string \<times> int \<times> string option \<times> string option list) option" where
  "guessView w r names =
     map_option (\<lambda>g. (phase g, timer g, confession g, map (ownProp (guesses g)) names))
       (heap w r)"

text \<open>The usernames of a roster, in order.\<close>

definition rosterOf :: "world \<Rightarrow> code \<Rightarrow> string list option" where
  "rosterOf w c = map_option (map username \<circ> participants) (lobbies w c)"

text \<open>The roster, the registered address, the two views and the pending timeouts at once.\<close>

definition snapshot ::
  "world \<Rightarrow> code \<Rightarrow> ref \<Rightarrow> string list \<Rightarrow>
   (bool \<times> string list) option \<times> ref option \<times>
   (string \<times> int \<times> string option \<times> string option) option \<times>
   jsnum option list option \<times> (nat \<times> task) list" where
  "snapshot w c r names =
     (map_option (\<lambda>l. (gameStarted l, map username (participants l))) (lobbies w c),
      gameStates w c, gameView w r, scoreView w r names, timeouts w)"

section \<open>Concrete sessions\<close>

text \<open>Small sessions on which the theorems below are instantiated.\<close>

definition worldOf :: "lobby \<Rightarrow> gameState \<Rightarrow> world" where
  "worldOf l g =
     \<lparr>lobbies = [code l \<mapsto> l], gameStates = [code l \<mapsto> 0], heap = [0 \<mapsto> g], nextRef = 1,
      disconnectedPlayers = [], intervals = Map.empty, nextHandle = 0, timeouts = [],
      sockets = Map.empty, outbox = [], crashed = False\<rparr>"

definition lobbyAB :: lobby where
  "lobbyAB =
     \<lparr>code = ''ROOM42'', host = ''Ann'',
      participants =
        [\<lparr>username = ''Ann'', isHost = True, connected = True\<rparr>,
         \<lparr>username = ''Bob'', isHost = False, connected = True\<rparr>],
      gameStarted = True\<rparr>"

definition topics3 :: "string list" where
  "topics3 = [''eaten a bug on purpose'', ''gone skinny dipping'', ''lied about my age'']"

text \<open>A catalog file whose first two lines are the same prompt.\<close>

definition dupTopics :: "string list" where
  "dupTopics = [''eaten a bug on purpose'', ''eaten a bug on purpose'', ''gone skinny dipping'']"

text \<open>Ann creates a lobby, Bob joins, Ann starts the game and the first round begins.\<close>

definition lobbyTrace :: "event list" where
  "lobbyTrace =
     [HttpCreate ''ROOM42'' ''Ann'', Connect 1, JoinLobby 1 ''ROOM42'' ''Ann'',
      HttpJoin ''ROOM42'' ''Bob'', Connect 2, JoinLobby 2 ''ROOM42'' ''Bob'',
      StartGame 1 ''ROOM42'' ''Ann'', Timeout 0 1]"

text \<open>Bob's connection drops one second into the round and he joins again on a new socket.\<close>

definition rejoinTrace :: "event list" where
  "rejoinTrace = lobbyTrace @ [Disconnect 2 1000, Connect 3, JoinLobby 3 ''ROOM42'' ''Bob'']"

text \<open>Ann sends \<open>start-game\<close> a second time, one second into the first countdown.\<close>

definition twoTimersTrace :: "event list" where
  "twoTimersTrace =
     lobbyTrace @ [Tick 0, StartGame 1 ''ROOM42'' ''Ann'', Tick 0, Tick 0, Timeout 0 0]"

definition freshGame :: gameState where
  "freshGame =
     \<lparr>phase = ''initial-voting'', roundNumber = 1, totalRounds = 15,
      currentTopic = None, initialVotes = Map.empty,
      selectedPlayer = None, playerInitialVote = None, confession = None,
      guesses = Map.empty,
      scores = [''Ann'' \<mapsto> Num 0, ''Bob'' \<mapsto> Num 0],
      usedTopics = [], timer = 30, timerInterval = None\<rparr>"

text \<open>The scoreboard of round \<open>n\<close> with the catalog indices \<open>used\<close> recorded.\<close>

definition scoreboardAB :: "int \<Rightarrow> int list \<Rightarrow> gameState" where
  "scoreboardAB n used =
     \<lparr>phase = ''scoreboard'', roundNumber = n, totalRounds = 15,
      currentTopic = Some ''gone skinny dipping'',
      initialVotes = [''Ann'' \<mapsto> ''yes'', ''Bob'' \<mapsto> ''no''],
      selectedPlayer = Some ''Ann'', playerInitialVote = Some ''yes'', confession = Some ''true'',
      guesses = [''Bob'' \<mapsto> ''true''],
      scores = [''Ann'' \<mapsto> Num 0, ''Bob'' \<mapsto> Num 3],
      usedTopics = used, timer = 12, timerInterval = None\<rparr>"

text \<open>Cat is no longer in the roster of Ann and Bob; her score entry is still in the table.\<close>

definition scoreboardStale :: gameState where
  "scoreboardStale =
     (scoreboardAB 3 [1, 0, 2])\<lparr>scores := [''Ann'' \<mapsto> Num 4, ''Bob'' \<mapsto> Num 3, ''Cat'' \<mapsto> Num 7]\<rparr>"

definition staleWorld :: world where
  "staleWorld =
     (worldOf lobbyAB scoreboardStale)
       \<lparr>sockets := [1 \<mapsto> \<lparr>sockUsername = Some ''Ann'', sockLobbyCode = Some ''ROOM42''\<rparr>]\<rparr>"

text \<open>
  Between two rounds (phase \<open>waiting\<close>) of a game of Ann, Bob and Cat.  Cat's connection
  dropped during the last round at \<open>Date.now() = 1000\<close>, so she is marked disconnected
  and tracked; Ann and Bob are on their sockets.
\<close>

definition waitingABC :: gameState where
  "waitingABC =
     \<lparr>phase = ''waiting'', roundNumber = 3, totalRounds = 15,
      currentTopic = Some ''gone skinny dipping'',
      initialVotes = [''Ann'' \<mapsto> ''yes'', ''Bob'' \<mapsto> ''no''],
      selectedPlayer = Some ''Ann'', playerInitialVote = Some ''yes'', confession = Some ''true'',
      guesses = [''Bob'' \<mapsto> ''true''],
      scores = [''Ann'' \<mapsto> Num 4, ''Bob'' \<mapsto> Num 3, ''Cat'' \<mapsto> Num 7],
      usedTopics = [1, 0], timer = 12, timerInterval = None\<rparr>"

definition lobbyCatAway :: lobby where
  "lobbyCatAway =
     \<lparr>code = ''ROOM42'', host = ''Ann'',
      participants =
        [\<lparr>username = ''Ann'', isHost = True, connected = True\<rparr>,
         \<lparr>username = ''Bob'', isHost = False, connected = True\<rparr>,
         \<lparr>username = ''Cat'', isHost = False, connected = False\<rparr>],
      gameStarted = True\<rparr>"

definition evictionWorld :: world where
  "evictionWorld =
     \<lparr>lobbies = [''ROOM42'' \<mapsto> lobbyCatAway],
      gameStates = [''ROOM42'' \<mapsto> 0], heap = [0 \<mapsto> waitingABC], nextRef = 1,
      disconnectedPlayers = [(''Cat'', (''ROOM42'', 1000))], intervals = Map.empty,
      nextHandle = 3, timeouts = [(3000, TStartInitialVotingPhase ''ROOM42'')],
      sockets = [1 \<mapsto> \<lparr>sockUsername = Some ''Ann'', sockLobbyCode = Some ''ROOM42''\<rparr>,
                 2 \<mapsto> \<lparr>sockUsername = Some ''Bob'', sockLobbyCode = Some ''ROOM42''\<rparr>],
      outbox = [], crashed = False\<rparr>"

text \<open>The sweep runs after five minutes, Bob leaves and Ann restarts the game.\<close>

definition evictionTrace :: "event list" where
  "evictionTrace =
     [Sweep 301500, LeaveLobby 2 ''ROOM42'' ''Bob'' 302000, RestartGame 1 ''ROOM42'']"

text \<open>
  The first round, second by second.  Ann votes at once, Bob after fifteen ticks of the
  countdown, which completes the vote; the results, the selection (Ann) and the
  confession phase follow from their timeouts.
\<close>

definition ticks5 :: "handle \<Rightarrow> event list" where
  "ticks5 h = [Tick h, Tick h, Tick h, Tick h, Tick h]"

definition confessionTrace :: "event list" where
  "confessionTrace =
     lobbyTrace @
     [CastInitialVote 1 ''ROOM42'' ''Ann'' ''yes''] @
     ticks5 0 @ ticks5 0 @ ticks5 0 @
     [CastInitialVote 2 ''ROOM42'' ''Bob'' ''no'',
      Timeout 0 0, Timeout 0 0, Timeout 0 0]"

text \<open>
  Ann confesses, Bob guesses after fifteen ticks of the guessing countdown, and the
  results, the scoreboard and the end of the scoreboard dwell follow.
\<close>

definition firstRoundTrace :: "event list" where
  "firstRoundTrace =
     confessionTrace @
     [MakeConfession 1 ''ROOM42'' ''Ann'' ''true'', Timeout 0 0] @
     ticks5 2 @ ticks5 2 @ ticks5 2 @
     [MakeGuess 2 ''ROOM42'' ''Bob'' ''true'',
      Timeout 0 0, Timeout 0 0, Timeout 0 0]"

text \<open>
  After the second \<open>start-game\<close> both players vote and both countdowns tick once per
  second; countdown 0 has three seconds less to run than countdown 1.
\<close>

definition bothTick :: "event list" where
  "bothTick = [Tick 0, Tick 1]"

definition bothTick9 :: "event list" where
  "bothTick9 =
     bothTick @ bothTick @ bothTick @ bothTick @ bothTick @ bothTick @ bothTick @ bothTick @
     bothTick"

definition doubleFireTrace :: "event list" where
  "doubleFireTrace =
     twoTimersTrace @
     [CastInitialVote 1 ''ROOM42'' ''Ann'' ''yes'', CastInitialVote 2 ''ROOM42'' ''Bob'' ''yes''] @
     bothTick9 @ bothTick9 @ bothTick9 @ [Tick 1, Tick 1, Tick 1]"

text \<open>
  Ann votes at once and Bob fifteen seconds into the countdown, which completes the
  vote and schedules the results one second later.
\<close>

definition votedTrace :: "event list" where
  "votedTrace =
     lobbyTrace @
     [CastInitialVote 1 ''ROOM42'' ''Ann'' ''yes''] @
     ticks5 0 @ ticks5 0 @ ticks5 0 @
     [CastInitialVote 2 ''ROOM42'' ''Bob'' ''yes'']"

text \<open>Bob's client sends the same vote once more within that second.\<close>

definition resentVoteTrace :: "event list" where
  "resentVoteTrace = votedTrace @ [CastInitialVote 2 ''ROOM42'' ''Bob'' ''yes'']"

text \<open>
  Twenty seconds into the first countdown Ann sends \<open>start-game\<close> again.  The new game
  begins two seconds later with countdown 1; Ann votes, Bob does not, and seven
  seconds pass.  Countdown 0 then has one second left and countdown 1 has 23.
\<close>

definition bothTick7 :: "event list" where
  "bothTick7 = bothTick @ bothTick @ bothTick @ bothTick @ bothTick @ bothTick @ bothTick"

definition staleCountdownTrace :: "event list" where
  "staleCountdownTrace =
     lobbyTrace @ ticks5 0 @ ticks5 0 @ ticks5 0 @ ticks5 0 @
     [StartGame 1 ''ROOM42'' ''Ann'', Tick 0, Tick 0, Timeout 0 0,
      CastInitialVote 1 ''ROOM42'' ''Ann'' ''yes''] @
     bothTick7"

text \<open>
  Ann, the host, sends \<open>restart-game\<close> in the second between the completed vote and
  its results.
\<close>

definition restartRaceTrace :: "event list" where
  "restartRaceTrace = votedTrace @ [RestartGame 1 ''ROOM42'']"

text \<open>Ann, the selected player, confesses \<open>true\<close> and within a second \<open>false\<close>.\<close>

definition twoConfessionsTrace :: "event list" where
  "twoConfessionsTrace =
     confessionTrace @
     [MakeConfession 1 ''ROOM42'' ''Ann'' ''true'', MakeConfession 1 ''ROOM42'' ''Ann'' ''false'']"

text \<open>
  The guessing phase scheduled by the first confession starts and Bob guesses at once.
\<close>

definition guessBetweenTrace :: "event list" where
  "guessBetweenTrace =
     twoConfessionsTrace @ [Timeout 0 0, MakeGuess 2 ''ROOM42'' ''Bob'' ''true'']"

text \<open>
  Ann confesses \<open>true\<close>; Bob guesses \<open>true\<close> fifteen seconds into the guessing countdown,
  which completes the guesses and schedules the results one second later.
\<close>

definition guessedTrace :: "event list" where
  "guessedTrace =
     confessionTrace @
     [MakeConfession 1 ''ROOM42'' ''Ann'' ''true'', Timeout 0 0] @
     ticks5 2 @ ticks5 2 @ ticks5 2 @
     [MakeGuess 2 ''ROOM42'' ''Bob'' ''true'']"

text \<open>Bob's client sends the same guess once more within that second.\<close>

definition resentGuessTrace :: "event list" where
  "resentGuessTrace = guessedTrace @ [MakeGuess 2 ''ROOM42'' ''Bob'' ''true'']"
section \<open>Properties\<close>

text \<open>The defining equations of the model, for evaluating it on a concrete session.\<close>

lemmas model_defs = run_def step_def httpCreate_def httpJoin_def
    onSocket_def joinLobby_def leaveLobby_def startGame_def castInitialVote_def
    makeConfession_def makeGuess_def restartGame_def fireTimeout_def runTask_def
    startInitialVotingPhase_def calculateInitialResults_def selectRandomPlayer_def
    startConfessionPhase_def startGuessingPhase_def calculateConfessionResults_def
    showScoreboard_def scoreboardDwell_def endGame_def timerTick_def runTimerCallback_def
    syncGameStateToPlayer_def disconnect_def disconnectFrom_def sweep_def sweepEntry_def
    gameActive_def getGameState_def setGameState_def emit_def setTimeout_def
    clearInterval_def startTimer_def markDisconnected_def hasParticipant_def
    removeParticipant_def seedScores_def availableTopics_def indexOf_def randomIndex_def
    countVotes_def countVote_def majorityOf_def awardMajority_def awardVote_def
    addScore_def countGuesses_def countGuess_def awardGuesses_def awardGuess_def
    eligibleGuesser_def actualConfession_def setProp_def ownProp_def readProp_def
    hasOwnProperty_def hasOwnPropertyShadowed_def objectPrototypeKeys_def socketKey_def
    Let_def

lemmas trace_defs = confessionTrace_def firstRoundTrace_def ticks5_def lobbyTrace_def
  twoTimersTrace_def doubleFireTrace_def bothTick_def bothTick9_def rejoinTrace_def
  topics3_def initialWorld_def gameView_def scoreView_def

lemmas race_defs = votedTrace_def resentVoteTrace_def staleCountdownTrace_def bothTick7_def
  restartRaceTrace_def twoConfessionsTrace_def guessBetweenTrace_def guessedTrace_def
  resentGuessTrace_def voteView_def guessView_def rosterOf_def

lemma worldOf_sel [simp]:
  "lobbies (worldOf l g) = [code l \<mapsto> l]"
  "gameStates (worldOf l g) = [code l \<mapsto> 0]"
  "heap (worldOf l g) = [0 \<mapsto> g]"
  "disconnectedPlayers (worldOf l g) = []"
  "intervals (worldOf l g) = Map.empty"
  "timeouts (worldOf l g) = []"
  "outbox (worldOf l g) = []"
  "crashed (worldOf l g) = False"
  by (simp_all add: worldOf_def)

subsection \<open>The two loops of the vote count\<close>

lemma fold_countVote:
  "fold (countVote votes) ps vr =
     \<lparr>yes = yes vr +
        int (length (filter (\<lambda>p. connected p \<and> ownProp votes (username p) = Some ''yes'') ps)),
      no = no vr +
        int (length (filter (\<lambda>p. connected p \<and> ownProp votes (username p) = Some ''no'') ps))\<rparr>"
  by (induction ps arbitrary: vr) (simp_all add: countVote_def)

lemma addScore_other: "v \<noteq> u \<Longrightarrow> addScore sc v k u = sc u"
  by (simp add: addScore_def setProp_def)

lemma addScore_after_other: "v \<noteq> u \<Longrightarrow> addScore (addScore sc v k) u j u = addScore sc u j u"
  by (simp add: addScore_def setProp_def ownProp_def)

lemma fold_awardVote_other:
  "u \<notin> username ` set ps \<Longrightarrow> fold (awardVote m votes) ps sc u = sc u"
  by (induction ps arbitrary: sc) (auto simp: awardVote_def addScore_other)

lemma fold_awardVote:
  "distinct (map username ps) \<Longrightarrow>
   fold (awardVote m votes) ps sc u =
     (if u \<in> username ` set ps \<and> ownProp votes u = Some m then addScore sc u 1 u else sc u)"
proof (induction ps arbitrary: sc)
  case Nil
  then show ?case by simp
next
  case (Cons p ps)
  show ?case
  proof (cases "username p = u")
    case True
    with Cons.prems have "u \<notin> username ` set ps" by auto
    then show ?thesis
      using True by (simp add: fold_awardVote_other) (simp add: awardVote_def)
  next
    case False
    with Cons show ?thesis by (simp add: awardVote_def addScore_other addScore_after_other)
  qed
qed

subsection \<open>The two loops of the guess count\<close>

lemma fold_countGuess:
  "fold (countGuess gs sel) ps gr =
     \<lparr>honest = honest gr +
        int (length (filter (\<lambda>p. eligibleGuesser sel p \<and> ownProp gs (username p) = Some ''true'') ps)),
      lied = lied gr +
        int (length (filter (\<lambda>p. eligibleGuesser sel p \<and> ownProp gs (username p) = Some ''false'') ps))\<rparr>"
  by (induction ps arbitrary: gr) (simp_all add: countGuess_def)

lemma awardGuess_other:
  "username p \<noteq> u \<Longrightarrow> awardGuess a gs sel p sc u = sc u"
  by (simp add: awardGuess_def addScore_other)

lemma awardGuess_after_other:
  "username p \<noteq> u \<Longrightarrow> addScore (awardGuess a gs sel p sc) u j u = addScore sc u j u"
  by (simp add: awardGuess_def addScore_after_other)

lemma fold_awardGuess_other:
  "u \<notin> username ` set ps \<Longrightarrow> fold (awardGuess a gs sel) ps sc u = sc u"
  by (induction ps arbitrary: sc) (auto simp: awardGuess_other)

lemma fold_awardGuess:
  "distinct (map username ps) \<Longrightarrow>
   fold (awardGuess a gs sel) ps sc u =
     (if (\<exists>p \<in> set ps. username p = u \<and> eligibleGuesser sel p) \<and> ownProp gs u = Some a
      then addScore sc u 3 u
      else sc u)"
proof (induction ps arbitrary: sc)
  case Nil
  then show ?case by simp
next
  case (Cons p ps)
  show ?case
  proof (cases "username p = u")
    case True
    with Cons.prems have out: "u \<notin> username ` set ps" by auto
    then have "\<not> (\<exists>q \<in> set ps. username q = u \<and> eligibleGuesser sel q)" by auto
    then show ?thesis
      using True out by (simp add: fold_awardGuess_other) (auto simp add: awardGuess_def)
  next
    case False
    from Cons.prems have "distinct (map username ps)" by simp
    from Cons.IH [OF this, of "awardGuess a gs sel p sc"] False
    show ?thesis by (auto simp add: awardGuess_other awardGuess_after_other)
  qed
qed
subsection \<open>What the runtime primitives leave unchanged\<close>

lemma emit_sel [simp]:
  "lobbies (emit d p w) = lobbies w"
  "gameStates (emit d p w) = gameStates w"
  "heap (emit d p w) = heap w"
  "nextRef (emit d p w) = nextRef w"
  "disconnectedPlayers (emit d p w) = disconnectedPlayers w"
  "intervals (emit d p w) = intervals w"
  "nextHandle (emit d p w) = nextHandle w"
  "timeouts (emit d p w) = timeouts w"
  "sockets (emit d p w) = sockets w"
  "crashed (emit d p w) = crashed w"
  by (simp_all add: emit_def)

lemma setTimeout_sel [simp]:
  "lobbies (setTimeout t ms w) = lobbies w"
  "gameStates (setTimeout t ms w) = gameStates w"
  "heap (setTimeout t ms w) = heap w"
  "nextRef (setTimeout t ms w) = nextRef w"
  "disconnectedPlayers (setTimeout t ms w) = disconnectedPlayers w"
  "intervals (setTimeout t ms w) = intervals w"
  "nextHandle (setTimeout t ms w) = nextHandle w"
  "sockets (setTimeout t ms w) = sockets w"
  "outbox (setTimeout t ms w) = outbox w"
  "crashed (setTimeout t ms w) = crashed w"
  "timeouts (setTimeout t ms w) = timeouts w @ [(ms, t)]"
  by (simp_all add: setTimeout_def)

lemma clearInterval_sel [simp]:
  "lobbies (clearInterval ho w) = lobbies w"
  "gameStates (clearInterval ho w) = gameStates w"
  "heap (clearInterval ho w) = heap w"
  "nextRef (clearInterval ho w) = nextRef w"
  "disconnectedPlayers (clearInterval ho w) = disconnectedPlayers w"
  "nextHandle (clearInterval ho w) = nextHandle w"
  "timeouts (clearInterval ho w) = timeouts w"
  "sockets (clearInterval ho w) = sockets w"
  "outbox (clearInterval ho w) = outbox w"
  "crashed (clearInterval ho w) = crashed w"
  by (simp_all add: clearInterval_def split: option.splits)

lemma setGameState_sel [simp]:
  "lobbies (setGameState r g w) = lobbies w"
  "gameStates (setGameState r g w) = gameStates w"
  "nextRef (setGameState r g w) = nextRef w"
  "disconnectedPlayers (setGameState r g w) = disconnectedPlayers w"
  "intervals (setGameState r g w) = intervals w"
  "nextHandle (setGameState r g w) = nextHandle w"
  "timeouts (setGameState r g w) = timeouts w"
  "sockets (setGameState r g w) = sockets w"
  "outbox (setGameState r g w) = outbox w"
  "crashed (setGameState r g w) = crashed w"
  "heap (setGameState r g w) = (heap w)(r \<mapsto> g)"
  by (simp_all add: setGameState_def)


subsection \<open>Which phase a function can store\<close>

lemma heap_sweepEntry: "heap (sweepEntry u c w) = heap w"
  by (simp add: sweepEntry_def Let_def split: option.splits)

lemma heap_sweepEntries: "heap (sweepEntries now es w) = heap w"
  by (induction now es w rule: sweepEntries.induct) (simp_all add: heap_sweepEntry)

lemma phaseAt_prims [simp]:
  "phaseAt (emit d p w) r = phaseAt w r"
  "phaseAt (clearInterval ho w) r = phaseAt w r"
  "phaseAt (setTimeout t ms w) r = phaseAt w r"
  "phaseAt (setGameState r' g w) r = (if r = r' then Some (phase g) else phaseAt w r)"
  by (simp_all add: phaseAt_def)

lemma phaseAt_fields [simp]:
  "phaseAt (w\<lparr>lobbies := a\<rparr>) r = phaseAt w r"
  "phaseAt (w\<lparr>gameStates := b\<rparr>) r = phaseAt w r"
  "phaseAt (w\<lparr>disconnectedPlayers := e\<rparr>) r = phaseAt w r"
  "phaseAt (w\<lparr>intervals := f\<rparr>) r = phaseAt w r"
  "phaseAt (w\<lparr>nextHandle := g\<rparr>) r = phaseAt w r"
  "phaseAt (w\<lparr>timeouts := i\<rparr>) r = phaseAt w r"
  "phaseAt (w\<lparr>sockets := h\<rparr>) r = phaseAt w r"
  "phaseAt (w\<lparr>outbox := j\<rparr>) r = phaseAt w r"
  "phaseAt (w\<lparr>crashed := k\<rparr>) r = phaseAt w r"
  by (simp_all add: phaseAt_def)

lemma getGameState_phaseAt:
  "getGameState w c = Some (r, g) \<Longrightarrow> phaseAt w r = Some (phase g)"
  by (auto simp: getGameState_def phaseAt_def split: option.splits)


lemma getGameState_fields [simp]:
  "getGameState (w\<lparr>lobbies := a\<rparr>) c = getGameState w c"
  "getGameState (w\<lparr>disconnectedPlayers := e\<rparr>) c = getGameState w c"
  "getGameState (w\<lparr>intervals := f\<rparr>) c = getGameState w c"
  "getGameState (w\<lparr>timeouts := i\<rparr>) c = getGameState w c"
  "getGameState (w\<lparr>sockets := h\<rparr>) c = getGameState w c"
  "getGameState (w\<lparr>outbox := j\<rparr>) c = getGameState w c"
  by (simp_all add: getGameState_def split: option.splits)

lemma ph_endGame [simp]: "phaseAt (endGame c w) r = phaseAt w r"
  by (simp add: endGame_def split: option.splits)

lemma ph_startTimer [simp]: "phaseAt (startTimer c s cb w) r = phaseAt w r"
  by (auto simp: startTimer_def Let_def getGameState_phaseAt split: option.splits)









lemma ph_syncGameStateToPlayer [simp]:
  "phaseAt (syncGameStateToPlayer sid c w) r = phaseAt w r"
  by (simp add: syncGameStateToPlayer_def Let_def split: option.splits)





lemma ph_httpCreate [simp]: "phaseAt (httpCreate c u w) r = phaseAt w r"
  by (simp add: httpCreate_def Let_def)

lemma ph_httpJoin [simp]: "phaseAt (httpJoin c u w) r = phaseAt w r"
  by (auto simp: httpJoin_def Let_def getGameState_phaseAt split: option.splits)

lemma ph_joinLobby [simp]: "phaseAt (joinLobby sid c u w) r = phaseAt w r"
  by (simp add: joinLobby_def Let_def split: option.splits)

lemma ph_leaveLobby [simp]: "phaseAt (leaveLobby c u now w) r = phaseAt w r"
  by (simp add: leaveLobby_def markDisconnected_def Let_def split: option.splits)

lemma ph_disconnect [simp]: "phaseAt (disconnect sid now w) r = phaseAt w r"
  by (simp add: disconnect_def disconnectFrom_def markDisconnected_def Let_def
      split: option.splits)

lemma ph_sweep [simp]: "phaseAt (sweep now w) r = phaseAt w r"
  by (simp add: sweep_def phaseAt_def heap_sweepEntries)

lemma ph_castInitialVote [simp]: "phaseAt (castInitialVote c u v w) r = phaseAt w r"
  by (auto simp: castInitialVote_def Let_def getGameState_phaseAt split: option.splits)

lemma ph_makeConfession [simp]: "phaseAt (makeConfession c u cf w) r = phaseAt w r"
  by (auto simp: makeConfession_def Let_def getGameState_phaseAt split: option.splits)

lemma ph_makeGuess [simp]: "phaseAt (makeGuess c u gs w) r = phaseAt w r"
  by (auto simp: makeGuess_def Let_def getGameState_phaseAt split: option.splits)






subsection \<open>Rosters list every name once\<close>

lemma names_setConnected [simp]: "map username (setConnected u b ps) = map username ps"
  by (induction ps) simp_all

lemma hasParticipant_iff: "hasParticipant u ps \<longleftrightarrow> u \<in> username ` set ps"
  by (induction ps) (auto simp: hasParticipant_def)

lemma distinct_removeParticipant:
  "distinct (map username ps) \<Longrightarrow> distinct (map username (removeParticipant u ps))"
  by (simp add: removeParticipant_def distinct_map_filter)

lemma rd_fields [simp]:
  "rosterDistinct (w\<lparr>gameStates := b\<rparr>) = rosterDistinct w"
  "rosterDistinct (w\<lparr>heap := c\<rparr>) = rosterDistinct w"
  "rosterDistinct (w\<lparr>nextRef := d\<rparr>) = rosterDistinct w"
  "rosterDistinct (w\<lparr>disconnectedPlayers := e\<rparr>) = rosterDistinct w"
  "rosterDistinct (w\<lparr>intervals := f\<rparr>) = rosterDistinct w"
  "rosterDistinct (w\<lparr>nextHandle := g\<rparr>) = rosterDistinct w"
  "rosterDistinct (w\<lparr>timeouts := i\<rparr>) = rosterDistinct w"
  "rosterDistinct (w\<lparr>sockets := h\<rparr>) = rosterDistinct w"
  "rosterDistinct (w\<lparr>outbox := j\<rparr>) = rosterDistinct w"
  "rosterDistinct (w\<lparr>crashed := k\<rparr>) = rosterDistinct w"
  by (simp_all add: rosterDistinct_def)

lemma rd_prims [simp]:
  "rosterDistinct (emit d p w) = rosterDistinct w"
  "rosterDistinct (setTimeout t ms w) = rosterDistinct w"
  "rosterDistinct (clearInterval ho w) = rosterDistinct w"
  "rosterDistinct (setGameState r g w) = rosterDistinct w"
  by (simp_all add: rosterDistinct_def)

lemma rd_update:
  "rosterDistinct w \<Longrightarrow> distinct (map username (participants l)) \<Longrightarrow>
   rosterDistinct (w\<lparr>lobbies := (lobbies w)(c \<mapsto> l)\<rparr>)"
  by (simp add: rosterDistinct_def)

lemma lobbies_endGame [simp]: "lobbies (endGame c w) = lobbies w"
  by (simp add: endGame_def split: option.splits)

lemma lobbies_startTimer [simp]: "lobbies (startTimer c s cb w) = lobbies w"
  by (simp add: startTimer_def Let_def split: option.splits)

lemma lobbies_game_logic [simp]:
  "lobbies (calculateInitialResults c w) = lobbies w"
  "lobbies (calculateConfessionResults c w) = lobbies w"
  "lobbies (startInitialVotingPhase topics rnd c w) = lobbies w"
  "lobbies (selectRandomPlayer rnd c w) = lobbies w"
  "lobbies (startConfessionPhase c w) = lobbies w"
  "lobbies (startGuessingPhase c w) = lobbies w"
  "lobbies (showScoreboard c w) = lobbies w"
  "lobbies (scoreboardDwell topics c r w) = lobbies w"
  "lobbies (syncGameStateToPlayer sid c w) = lobbies w"
  "lobbies (castInitialVote c u v w) = lobbies w"
  "lobbies (makeConfession c u cf w) = lobbies w"
  "lobbies (makeGuess c u gs w) = lobbies w"
  "lobbies (restartGame sid c w) = lobbies w"
  by (simp_all add: calculateInitialResults_def calculateConfessionResults_def
      startInitialVotingPhase_def selectRandomPlayer_def startConfessionPhase_def
      startGuessingPhase_def showScoreboard_def scoreboardDwell_def syncGameStateToPlayer_def
      castInitialVote_def makeConfession_def makeGuess_def restartGame_def Let_def
      split: option.splits)

lemma lobbies_runTimerCallback [simp]: "lobbies (runTimerCallback cb c r w) = lobbies w"
  by (cases cb) (simp_all add: runTimerCallback_def split: option.splits)

lemma lobbies_timerTick [simp]: "lobbies (timerTick h w) = lobbies w"
  by (simp add: timerTick_def Let_def split: option.splits)

lemma lobbies_runTask [simp]: "lobbies (runTask topics rnd t w) = lobbies w"
  by (cases t) (simp_all add: runTask_def)

lemma lobbies_fireTimeout [simp]: "lobbies (fireTimeout topics i rnd w) = lobbies w"
  by (simp add: fireTimeout_def)

lemma rd_httpCreate: "rosterDistinct w \<Longrightarrow> rosterDistinct (httpCreate c u w)"
  by (simp add: httpCreate_def Let_def rd_update)

lemma rd_httpJoin: "rosterDistinct w \<Longrightarrow> rosterDistinct (httpJoin c u w)"
  by (auto simp: httpJoin_def Let_def hasParticipant_iff rosterDistinct_def
      split: option.splits if_splits)

lemma rd_joinLobby: "rosterDistinct w \<Longrightarrow> rosterDistinct (joinLobby sid c u w)"
  by (auto simp: joinLobby_def Let_def rosterDistinct_def split: option.splits if_splits)

lemma rd_leaveLobby: "rosterDistinct w \<Longrightarrow> rosterDistinct (leaveLobby c u now w)"
  by (auto simp: leaveLobby_def markDisconnected_def Let_def rosterDistinct_def
      distinct_removeParticipant split: option.splits if_splits)

lemma rd_disconnectFrom: "rosterDistinct w \<Longrightarrow> rosterDistinct (disconnectFrom c u now w)"
  by (auto simp: disconnectFrom_def markDisconnected_def Let_def rosterDistinct_def
      distinct_removeParticipant split: option.splits if_splits)

lemma rd_disconnect: "rosterDistinct w \<Longrightarrow> rosterDistinct (disconnect sid now w)"
  by (simp add: disconnect_def Let_def rd_disconnectFrom split: option.splits)

lemma rd_startGame: "rosterDistinct w \<Longrightarrow> rosterDistinct (startGame c u w)"
  by (auto simp: startGame_def Let_def rosterDistinct_def split: option.splits if_splits)

lemma rd_sweepEntry: "rosterDistinct w \<Longrightarrow> rosterDistinct (sweepEntry u c w)"
  by (auto simp: sweepEntry_def Let_def rosterDistinct_def distinct_removeParticipant
      split: option.splits if_splits)

lemma rd_sweepEntries: "rosterDistinct w \<Longrightarrow> rosterDistinct (sweepEntries now es w)"
  by (induction now es w rule: sweepEntries.induct) (simp_all add: rd_sweepEntry)

lemma rd_step: "rosterDistinct w \<Longrightarrow> rosterDistinct (step topics ev w)"
proof (cases ev)
  case (HttpCreate c u)
  then show "rosterDistinct w \<Longrightarrow> ?thesis" by (simp add: step_def rd_httpCreate)
next
  case (HttpJoin c u)
  then show "rosterDistinct w \<Longrightarrow> ?thesis" by (simp add: step_def rd_httpJoin)
next
  case (JoinLobby sid c u)
  then show "rosterDistinct w \<Longrightarrow> ?thesis" by (simp add: step_def onSocket_def rd_joinLobby)
next
  case (LeaveLobby sid c u now)
  then show "rosterDistinct w \<Longrightarrow> ?thesis" by (simp add: step_def onSocket_def rd_leaveLobby)
next
  case (StartGame sid c u)
  then show "rosterDistinct w \<Longrightarrow> ?thesis" by (simp add: step_def onSocket_def rd_startGame)
next
  case (Disconnect sid now)
  then show "rosterDistinct w \<Longrightarrow> ?thesis" by (simp add: step_def rd_disconnect)
next
  case (Sweep now)
  then show "rosterDistinct w \<Longrightarrow> ?thesis" by (simp add: step_def sweep_def rd_sweepEntries)
qed (simp_all add: step_def onSocket_def rosterDistinct_def)

lemma rd_run: "rosterDistinct w \<Longrightarrow> rosterDistinct (run topics evs w)"
  unfolding run_def by (induction evs arbitrary: w) (simp_all add: rd_step)

lemma roster_distinct_reachable:
  "lobbies (run topics evs initialWorld) c = Some l \<Longrightarrow> distinct (map username (participants l))"
  using rd_run [of initialWorld topics evs]
  by (simp add: rosterDistinct_def initialWorld_def)


subsection \<open>Majority scoring\<close>

text \<open>
  One run of \<open>calculateInitialResults\<close>.  The tally it broadcasts counts, for each
  option, the connected roster entries whose recorded vote is that option.  If the two
  counts differ, every roster entry whose recorded vote is the majority option has its
  score raised by 1 and every other name keeps its score; if the counts are equal the
  score table is unchanged.  The function has no test on the phase: it does this every
  time it runs.  Roster names are distinct in every reachable world
  (\<open>roster_distinct_reachable\<close>).
\<close>

lemma calculateInitialResults_scoring:
  assumes lob: "lobbies w c = Some l"
      and reg: "gameStates w c = Some r"
      and obj: "heap w r = Some g"
      and dist: "distinct (map username (participants l))"
  shows "\<exists>g'. heap (calculateInitialResults c w) r = Some g' \<and>
           phase g' = ''initial-results'' \<and>
           (let votes = ownProp (initialVotes g);
                ny = int (length (filter (\<lambda>p. connected p \<and> votes (username p) = Some ''yes'')
                                    (participants l)));
                nn = int (length (filter (\<lambda>p. connected p \<and> votes (username p) = Some ''no'')
                                    (participants l)));
                m = (if ny > nn then ''yes'' else ''no'')
            in outbox (calculateInitialResults c w) =
                 outbox w @
                 [(Room c, GamePhaseUpdate ''initial-results'' NoExtra),
                  (Room c, InitialVoteResults \<lparr>yes = ny, no = nn\<rparr>
                             (if ny = nn then None else Some m) (currentTopic g))] \<and>
               (ny = nn \<longrightarrow> scores g' = scores g) \<and>
               (ny \<noteq> nn \<longrightarrow>
                  (\<forall>p \<in> set (participants l). \<forall>n.
                      votes (username p) = Some m \<and> scores g (username p) = Some (Num n) \<longrightarrow>
                      scores g' (username p) = Some (Num (n + 1))) \<and>
                  (\<forall>u. votes u \<noteq> Some m \<longrightarrow> scores g' u = scores g u)))"
proof -
  let ?vr = "countVotes (initialVotes g) (participants l)"
  let ?g' = "g\<lparr>scores := awardMajority (majorityOf ?vr) (initialVotes g) (participants l) (scores g),
               phase := ''initial-results''\<rparr>"
  have res: "heap (calculateInitialResults c w) r = Some ?g'"
    using lob reg obj
    by (simp add: calculateInitialResults_def getGameState_def Let_def setGameState_def
        emit_def setTimeout_def)
  have out: "outbox (calculateInitialResults c w) =
      outbox w @ [(Room c, GamePhaseUpdate ''initial-results'' NoExtra),
                  (Room c, InitialVoteResults ?vr (majorityOf ?vr) (currentTopic g))]"
    using lob reg obj
    by (simp add: calculateInitialResults_def getGameState_def Let_def setGameState_def
        emit_def setTimeout_def)
  have cnt: "?vr =
      \<lparr>yes = int (length (filter (\<lambda>p. connected p \<and> ownProp (initialVotes g) (username p) = Some ''yes'')
                                    (participants l))),
       no = int (length (filter (\<lambda>p. connected p \<and> ownProp (initialVotes g) (username p) = Some ''no'')
                                    (participants l)))\<rparr>"
    by (simp add: countVotes_def fold_countVote)
  have bump: "ownProp (initialVotes g) u = Some m \<Longrightarrow> scores g u = Some (Num n) \<Longrightarrow>
      addScore (scores g) u 1 u = Some (Num (n + 1))" for u m n
    by (auto simp: addScore_def setProp_def ownProp_def split: if_splits)
  show ?thesis
    unfolding res out
    by (rule exI [of _ ?g'])
      (auto simp: Let_def cnt majorityOf_def awardMajority_def fold_awardVote [OF dist] bump)
qed

text \<open>
  Claim C1 on a concrete session.  The \<open>cast-initial-vote\<close> handler delays
  \<open>calculateInitialResults\<close> by one second and the phase stays \<open>initial-voting\<close> in that
  second, so a vote that arrives again in that second meets the same exit test and
  schedules \<open>calculateInitialResults\<close> a second time.  In the first round of Ann and Bob
  both vote \<open>yes\<close>; Bob's vote completes the round fifteen seconds into the only
  countdown of the session and then arrives once more.  The round is tallied twice
  and Ann and Bob, who voted with the majority once, have 2 points each; the player
  selection is scheduled twice.
\<close>

theorem resent_vote_awards_majority_twice:
  "snapshot (run topics3 votedTrace initialWorld) ''ROOM42'' 0 [''Ann'', ''Bob''] =
     (Some (True, [''Ann'', ''Bob'']), Some 0, Some (''initial-voting'', 1, None, None),
      Some [Some (Num 0), Some (Num 0)],
      [(1000, TCalculateInitialResults ''ROOM42'')]) \<and>
   nextHandle (run topics3 votedTrace initialWorld) = 1 \<and>
   intervals (run topics3 votedTrace initialWorld) 0 = None \<and>
   snapshot (run topics3 resentVoteTrace initialWorld) ''ROOM42'' 0 [''Ann'', ''Bob''] =
     (Some (True, [''Ann'', ''Bob'']), Some 0, Some (''initial-voting'', 1, None, None),
      Some [Some (Num 0), Some (Num 0)],
      [(1000, TCalculateInitialResults ''ROOM42''), (1000, TCalculateInitialResults ''ROOM42'')]) \<and>
   snapshot (run topics3 (resentVoteTrace @ [Timeout 0 0]) initialWorld) ''ROOM42'' 0
       [''Ann'', ''Bob''] =
     (Some (True, [''Ann'', ''Bob'']), Some 0, Some (''initial-results'', 1, None, None),
      Some [Some (Num 1), Some (Num 1)],
      [(1000, TCalculateInitialResults ''ROOM42''), (4000, TSelectRandomPlayer ''ROOM42'')]) \<and>
   snapshot (run topics3 (resentVoteTrace @ [Timeout 0 0, Timeout 0 0]) initialWorld) ''ROOM42'' 0
       [''Ann'', ''Bob''] =
     (Some (True, [''Ann'', ''Bob'']), Some 0, Some (''initial-results'', 1, None, None),
      Some [Some (Num 2), Some (Num 2)],
      [(4000, TSelectRandomPlayer ''ROOM42''), (4000, TSelectRandomPlayer ''ROOM42'')]) \<and>
   nextHandle (run topics3 (resentVoteTrace @ [Timeout 0 0, Timeout 0 0]) initialWorld) = 1"
proof -
  have a: "snapshot (run topics3 votedTrace initialWorld) ''ROOM42'' 0 [''Ann'', ''Bob''] =
     (Some (True, [''Ann'', ''Bob'']), Some 0, Some (''initial-voting'', 1, None, None),
      Some [Some (Num 0), Some (Num 0)],
      [(1000, TCalculateInitialResults ''ROOM42'')])"
    by (simp add: model_defs trace_defs race_defs snapshot_def)
  have b: "nextHandle (run topics3 votedTrace initialWorld) = 1 \<and>
      intervals (run topics3 votedTrace initialWorld) 0 = None"
    by (simp add: model_defs trace_defs race_defs)
  have c: "snapshot (run topics3 resentVoteTrace initialWorld) ''ROOM42'' 0 [''Ann'', ''Bob''] =
     (Some (True, [''Ann'', ''Bob'']), Some 0, Some (''initial-voting'', 1, None, None),
      Some [Some (Num 0), Some (Num 0)],
      [(1000, TCalculateInitialResults ''ROOM42''), (1000, TCalculateInitialResults ''ROOM42'')])"
    by (simp add: model_defs trace_defs race_defs snapshot_def)
  have d: "snapshot (run topics3 (resentVoteTrace @ [Timeout 0 0]) initialWorld) ''ROOM42'' 0
       [''Ann'', ''Bob''] =
     (Some (True, [''Ann'', ''Bob'']), Some 0, Some (''initial-results'', 1, None, None),
      Some [Some (Num 1), Some (Num 1)],
      [(1000, TCalculateInitialResults ''ROOM42''), (4000, TSelectRandomPlayer ''ROOM42'')])"
    by (simp add: model_defs trace_defs race_defs snapshot_def)
  have e: "snapshot (run topics3 (resentVoteTrace @ [Timeout 0 0, Timeout 0 0]) initialWorld)
       ''ROOM42'' 0 [''Ann'', ''Bob''] =
     (Some (True, [''Ann'', ''Bob'']), Some 0, Some (''initial-results'', 1, None, None),
      Some [Some (Num 2), Some (Num 2)],
      [(4000, TSelectRandomPlayer ''ROOM42''), (4000, TSelectRandomPlayer ''ROOM42'')])"
    by (simp add: model_defs trace_defs race_defs snapshot_def)
  have f: "nextHandle (run topics3 (resentVoteTrace @ [Timeout 0 0, Timeout 0 0]) initialWorld) = 1"
    by (simp add: model_defs trace_defs race_defs)
  from a b c d e f show ?thesis by simp
qed
subsection \<open>The early-advance floor of initial voting\<close>

text \<open>
  The decision of the \<open>cast-initial-vote\<close> handler in the initial-voting phase.  The vote
  is stored (not under the key \<open>__proto__\<close>) and the phase stays \<open>initial-voting\<close>.  With
  a connected player in the roster and a vote stored under the key \<open>hasOwnProperty\<close>
  the handler throws.  Otherwise it schedules \<open>calculateInitialResults\<close> exactly when
  every connected participant has a recorded vote and \<open>30 - timer\<close> is at least 15, and
  schedules nothing in every other case.
\<close>

lemma castInitialVote_decision:
  assumes reg: "gameStates w c = Some r"
      and obj: "heap w r = Some g"
      and ph: "phase g = ''initial-voting''"
      and lob: "lobbies w c = Some l"
  shows "(let w' = castInitialVote c u v w;
              votes' = setProp (initialVotes g) u v;
              throws = (filter connected (participants l) \<noteq> [] \<and> hasOwnPropertyShadowed votes');
              exit = ((\<forall>p \<in> set (participants l). connected p \<longrightarrow>
                         hasOwnProperty votes' (username p)) \<and> 30 - timer g \<ge> 15)
          in (\<exists>g'. heap w' r = Some g' \<and> phase g' = ''initial-voting'' \<and>
                    initialVotes g' = votes' \<and> timer g' = timer g) \<and>
             crashed w' = (crashed w \<or> throws) \<and>
             timeouts w' =
               (if \<not> throws \<and> exit then timeouts w @ [(1000, TCalculateInitialResults c)]
                else timeouts w))"
  using reg obj ph lob
  by (auto simp: castInitialVote_def getGameState_def Let_def list_all_iff filter_empty_conv
      split: option.splits)

text \<open>
  Claim C2 on two concrete sessions.  The handler keeps the floor, but
  \<open>calculateInitialResults\<close> has no test on the phase or on the round it was scheduled
  for, and neither \<open>start-game\<close> nor \<open>restart-game\<close> cancels what is still scheduled for
  the code.

  First session: twenty seconds into the first countdown Ann sends \<open>start-game\<close> again.
  The new game is seven seconds into its initial-voting phase, its own countdown at 23,
  with Ann's vote recorded and Bob's missing, when the countdown of the replaced game
  reaches zero: the new game moves to \<open>initial-results\<close> with its countdown still at 23
  and still running.

  Second session: the vote of Ann and Bob is complete after fifteen seconds and the
  results are scheduled; Ann sends \<open>restart-game\<close> within that second.  The game is
  back in \<open>initial-voting\<close> with no vote recorded and the timer at 30 when the scheduled
  \<open>calculateInitialResults\<close> runs and moves it to \<open>initial-results\<close>.
\<close>

theorem initial_voting_ended_by_stale_callback:
  "gameStates (run topics3 staleCountdownTrace initialWorld) ''ROOM42'' = Some 1 \<and>
   voteView (run topics3 staleCountdownTrace initialWorld) 1 [''Ann'', ''Bob'']
     = Some (''initial-voting'', 23, [Some ''yes'', None]) \<and>
   voteView (run topics3 staleCountdownTrace initialWorld) 0 [''Ann'', ''Bob'']
     = Some (''initial-voting'', 1, [None, None]) \<and>
   map (intervals (run topics3 staleCountdownTrace initialWorld)) [0, 1]
     = [Some (''ROOM42'', 0, CbCalculateInitialResults),
        Some (''ROOM42'', 1, CbCalculateInitialResults)] \<and>
   timeouts (run topics3 staleCountdownTrace initialWorld) = [] \<and>
   voteView (run topics3 (staleCountdownTrace @ [Tick 0]) initialWorld) 1 [''Ann'', ''Bob'']
     = Some (''initial-results'', 23, [Some ''yes'', None]) \<and>
   map (intervals (run topics3 (staleCountdownTrace @ [Tick 0]) initialWorld)) [0, 1]
     = [None, Some (''ROOM42'', 1, CbCalculateInitialResults)] \<and>
   voteView (run topics3 votedTrace initialWorld) 0 [''Ann'', ''Bob'']
     = Some (''initial-voting'', 15, [Some ''yes'', Some ''yes'']) \<and>
   voteView (run topics3 restartRaceTrace initialWorld) 0 [''Ann'', ''Bob'']
     = Some (''initial-voting'', 30, [None, None]) \<and>
   timeouts (run topics3 restartRaceTrace initialWorld)
     = [(1000, TCalculateInitialResults ''ROOM42''), (2000, TStartInitialVotingPhase ''ROOM42'')] \<and>
   voteView (run topics3 (restartRaceTrace @ [Timeout 0 0]) initialWorld) 0 [''Ann'', ''Bob'']
     = Some (''initial-results'', 30, [None, None])"
proof -
  have a: "gameStates (run topics3 staleCountdownTrace initialWorld) ''ROOM42'' = Some 1 \<and>
      voteView (run topics3 staleCountdownTrace initialWorld) 1 [''Ann'', ''Bob'']
        = Some (''initial-voting'', 23, [Some ''yes'', None]) \<and>
      voteView (run topics3 staleCountdownTrace initialWorld) 0 [''Ann'', ''Bob'']
        = Some (''initial-voting'', 1, [None, None]) \<and>
      map (intervals (run topics3 staleCountdownTrace initialWorld)) [0, 1]
        = [Some (''ROOM42'', 0, CbCalculateInitialResults),
           Some (''ROOM42'', 1, CbCalculateInitialResults)] \<and>
      timeouts (run topics3 staleCountdownTrace initialWorld) = []"
    by (simp add: model_defs trace_defs race_defs)
  have b: "voteView (run topics3 (staleCountdownTrace @ [Tick 0]) initialWorld) 1 [''Ann'', ''Bob'']
        = Some (''initial-results'', 23, [Some ''yes'', None]) \<and>
      map (intervals (run topics3 (staleCountdownTrace @ [Tick 0]) initialWorld)) [0, 1]
        = [None, Some (''ROOM42'', 1, CbCalculateInitialResults)]"
    by (simp add: model_defs trace_defs race_defs)
  have c: "voteView (run topics3 votedTrace initialWorld) 0 [''Ann'', ''Bob'']
        = Some (''initial-voting'', 15, [Some ''yes'', Some ''yes''])"
    by (simp add: model_defs trace_defs race_defs)
  have d: "voteView (run topics3 restartRaceTrace initialWorld) 0 [''Ann'', ''Bob'']
        = Some (''initial-voting'', 30, [None, None]) \<and>
      timeouts (run topics3 restartRaceTrace initialWorld)
        = [(1000, TCalculateInitialResults ''ROOM42''),
           (2000, TStartInitialVotingPhase ''ROOM42'')]"
    by (simp add: model_defs trace_defs race_defs)
  have e: "voteView (run topics3 (restartRaceTrace @ [Timeout 0 0]) initialWorld) 0 [''Ann'', ''Bob'']
        = Some (''initial-results'', 30, [None, None])"
    by (simp add: model_defs trace_defs race_defs)
  from a b c d e show ?thesis by simp
qed
subsection \<open>Confession submissions\<close>

text \<open>
  Claim C3 on a concrete session.  The \<open>make-confession\<close> handler accepts a submission
  only in the phase \<open>confession\<close> and only from the selected player, and its comment
  reads \<open>Clear the timer and move to guessing phase\<close>; but the move is delayed by one
  second and the phase stays \<open>confession\<close> in that second.  In the first round of Ann
  and Bob the selected player Ann confesses \<open>true\<close> and within that second \<open>false\<close>:
  the second submission is accepted, overwrites the stored confession and schedules
  \<open>startGuessingPhase\<close> a second time.  The guessing phase starts and Bob guesses; then
  the second \<open>startGuessingPhase\<close> runs, empties the guesses and replaces the
  countdown by a new one.
\<close>

theorem second_confession_accepted_and_guessing_restarted:
  "guessView (run topics3 confessionTrace initialWorld) 0 [''Bob'']
     = Some (''confession'', 60, None, [None]) \<and>
   guessView (run topics3 (confessionTrace @ [MakeConfession 1 ''ROOM42'' ''Ann'' ''true''])
                initialWorld) 0 [''Bob'']
     = Some (''confession'', 60, Some ''true'', [None]) \<and>
   timeouts (run topics3 (confessionTrace @ [MakeConfession 1 ''ROOM42'' ''Ann'' ''true''])
               initialWorld)
     = [(1000, TStartGuessingPhase ''ROOM42'')] \<and>
   guessView (run topics3 twoConfessionsTrace initialWorld) 0 [''Bob'']
     = Some (''confession'', 60, Some ''false'', [None]) \<and>
   timeouts (run topics3 twoConfessionsTrace initialWorld)
     = [(1000, TStartGuessingPhase ''ROOM42''), (1000, TStartGuessingPhase ''ROOM42'')] \<and>
   guessView (run topics3 guessBetweenTrace initialWorld) 0 [''Bob'']
     = Some (''guessing'', 30, Some ''false'', [Some ''true'']) \<and>
   map (intervals (run topics3 guessBetweenTrace initialWorld)) [2, 3]
     = [Some (''ROOM42'', 0, CbCalculateConfessionResults), None] \<and>
   guessView (run topics3 (guessBetweenTrace @ [Timeout 0 0]) initialWorld) 0 [''Bob'']
     = Some (''guessing'', 30, Some ''false'', [None]) \<and>
   map (intervals (run topics3 (guessBetweenTrace @ [Timeout 0 0]) initialWorld)) [2, 3]
     = [None, Some (''ROOM42'', 0, CbCalculateConfessionResults)]"
proof -
  have a: "guessView (run topics3 confessionTrace initialWorld) 0 [''Bob'']
      = Some (''confession'', 60, None, [None])"
    by (simp add: model_defs trace_defs race_defs)
  have b: "guessView (run topics3 (confessionTrace @ [MakeConfession 1 ''ROOM42'' ''Ann'' ''true''])
                initialWorld) 0 [''Bob'']
        = Some (''confession'', 60, Some ''true'', [None]) \<and>
      timeouts (run topics3 (confessionTrace @ [MakeConfession 1 ''ROOM42'' ''Ann'' ''true''])
                  initialWorld)
        = [(1000, TStartGuessingPhase ''ROOM42'')]"
    by (simp add: model_defs trace_defs race_defs)
  have c: "guessView (run topics3 twoConfessionsTrace initialWorld) 0 [''Bob'']
        = Some (''confession'', 60, Some ''false'', [None]) \<and>
      timeouts (run topics3 twoConfessionsTrace initialWorld)
        = [(1000, TStartGuessingPhase ''ROOM42''), (1000, TStartGuessingPhase ''ROOM42'')]"
    by (simp add: model_defs trace_defs race_defs)
  have d: "guessView (run topics3 guessBetweenTrace initialWorld) 0 [''Bob'']
        = Some (''guessing'', 30, Some ''false'', [Some ''true'']) \<and>
      map (intervals (run topics3 guessBetweenTrace initialWorld)) [2, 3]
        = [Some (''ROOM42'', 0, CbCalculateConfessionResults), None]"
    by (simp add: model_defs trace_defs race_defs)
  have e: "guessView (run topics3 (guessBetweenTrace @ [Timeout 0 0]) initialWorld) 0
           [''Bob'']
        = Some (''guessing'', 30, Some ''false'', [None]) \<and>
      map (intervals (run topics3 (guessBetweenTrace @ [Timeout 0 0]) initialWorld))
          [2, 3]
        = [None, Some (''ROOM42'', 0, CbCalculateConfessionResults)]"
    by (simp add: model_defs trace_defs race_defs)
  from a b c d e show ?thesis by simp
qed
subsection \<open>Guess scoring\<close>

text \<open>
  One run of \<open>calculateConfessionResults\<close>.  The actual confession is
  \<open>actualConfession\<close> of the GameState object (\<open>confession || 'true'\<close>).  Every
  eligible guesser, that is every connected roster entry other than the selected player,
  whose guess equals it has the score raised by 3; every other name keeps its score,
  and so does the selected player.  The function has no test on the phase: it does
  this every time it runs.  Roster names are distinct in every reachable world
  (\<open>roster_distinct_reachable\<close>).
\<close>

lemma calculateConfessionResults_scoring:
  assumes lob: "lobbies w c = Some l"
      and reg: "gameStates w c = Some r"
      and obj: "heap w r = Some g"
      and dist: "distinct (map username (participants l))"
  shows "\<exists>g'. heap (calculateConfessionResults c w) r = Some g' \<and>
            phase g' = ''confession-results'' \<and>
            (let gs = ownProp (guesses g); sel = selectedPlayer g; actual = actualConfession g;
                 eligible = (\<lambda>p. connected p \<and> Some (username p) \<noteq> sel)
             in outbox (calculateConfessionResults c w) =
                  outbox w @
                  [(Room c, GamePhaseUpdate ''confession-results'' NoExtra),
                   (Room c, ConfessionResults
                      \<lparr>honest = int (length (filter (\<lambda>p. eligible p \<and> gs (username p) = Some ''true'')
                                                (participants l))),
                       lied = int (length (filter (\<lambda>p. eligible p \<and> gs (username p) = Some ''false'')
                                              (participants l)))\<rparr>
                      actual sel)] \<and>
                (\<forall>p \<in> set (participants l). \<forall>n.
                    eligible p \<and> gs (username p) = Some actual \<and>
                    scores g (username p) = Some (Num n) \<longrightarrow>
                    scores g' (username p) = Some (Num (n + 3))) \<and>
                (\<forall>u. (\<forall>p \<in> set (participants l).
                          username p = u \<longrightarrow> \<not> (eligible p \<and> gs u = Some actual)) \<longrightarrow>
                     scores g' u = scores g u) \<and>
                (\<forall>u. sel = Some u \<longrightarrow> scores g' u = scores g u))"
proof -
  let ?gr = "countGuesses (guesses g) (selectedPlayer g) (participants l)"
  let ?g' = "g\<lparr>scores := awardGuesses (actualConfession g) (guesses g) (selectedPlayer g)
                            (participants l) (scores g),
               phase := ''confession-results''\<rparr>"
  have res: "heap (calculateConfessionResults c w) r = Some ?g'"
    using lob reg obj
    by (simp add: calculateConfessionResults_def getGameState_def Let_def setGameState_def
        emit_def setTimeout_def)
  have out: "outbox (calculateConfessionResults c w) =
      outbox w @ [(Room c, GamePhaseUpdate ''confession-results'' NoExtra),
                  (Room c, ConfessionResults ?gr (actualConfession g) (selectedPlayer g))]"
    using lob reg obj
    by (simp add: calculateConfessionResults_def getGameState_def Let_def setGameState_def
        emit_def setTimeout_def)
  have cnt: "?gr =
      \<lparr>honest = int (length (filter (\<lambda>p. (connected p \<and> Some (username p) \<noteq> selectedPlayer g) \<and>
                                          ownProp (guesses g) (username p) = Some ''true'')
                                     (participants l))),
       lied = int (length (filter (\<lambda>p. (connected p \<and> Some (username p) \<noteq> selectedPlayer g) \<and>
                                        ownProp (guesses g) (username p) = Some ''false'')
                                   (participants l)))\<rparr>"
    by (simp add: countGuesses_def fold_countGuess eligibleGuesser_def)
  have bump: "ownProp (guesses g) u = Some a \<Longrightarrow> scores g u = Some (Num n) \<Longrightarrow>
      addScore (scores g) u 3 u = Some (Num (n + 3))" for u a n
    by (auto simp: addScore_def setProp_def ownProp_def split: if_splits)
  show ?thesis
    unfolding res out
    by (rule exI [of _ ?g'])
      (auto simp: Let_def cnt awardGuesses_def fold_awardGuess [OF dist] eligibleGuesser_def bump)
qed

text \<open>
  Claim C4 on a concrete session.  The \<open>make-guess\<close> handler delays
  \<open>calculateConfessionResults\<close> by one second and the phase stays \<open>guessing\<close> in that
  second, so a guess that arrives again in that second meets the same exit test and
  schedules \<open>calculateConfessionResults\<close> a second time.  In the first round of Ann and
  Bob the selected player Ann confesses \<open>true\<close>; Bob guesses \<open>true\<close> fifteen seconds into
  the guessing countdown and his guess arrives once more.  The results are computed
  twice: Bob, who guessed right once, has 6 points, and the scoreboard is scheduled
  twice.  Ann, the selected player, keeps her score.
\<close>

theorem resent_guess_awards_guesser_twice:
  "snapshot (run topics3 guessedTrace initialWorld) ''ROOM42'' 0 [''Ann'', ''Bob''] =
     (Some (True, [''Ann'', ''Bob'']), Some 0, Some (''guessing'', 1, Some ''Ann'', Some ''true''),
      Some [Some (Num 0), Some (Num 0)],
      [(1000, TCalculateConfessionResults ''ROOM42'')]) \<and>
   snapshot (run topics3 resentGuessTrace initialWorld) ''ROOM42'' 0 [''Ann'', ''Bob''] =
     (Some (True, [''Ann'', ''Bob'']), Some 0, Some (''guessing'', 1, Some ''Ann'', Some ''true''),
      Some [Some (Num 0), Some (Num 0)],
      [(1000, TCalculateConfessionResults ''ROOM42''),
       (1000, TCalculateConfessionResults ''ROOM42'')]) \<and>
   snapshot (run topics3 (resentGuessTrace @ [Timeout 0 0]) initialWorld) ''ROOM42'' 0
       [''Ann'', ''Bob''] =
     (Some (True, [''Ann'', ''Bob'']), Some 0,
      Some (''confession-results'', 1, Some ''Ann'', Some ''true''),
      Some [Some (Num 0), Some (Num 3)],
      [(1000, TCalculateConfessionResults ''ROOM42''), (5000, TShowScoreboard ''ROOM42'')]) \<and>
   snapshot (run topics3 (resentGuessTrace @ [Timeout 0 0, Timeout 0 0]) initialWorld) ''ROOM42'' 0
       [''Ann'', ''Bob''] =
     (Some (True, [''Ann'', ''Bob'']), Some 0,
      Some (''confession-results'', 1, Some ''Ann'', Some ''true''),
      Some [Some (Num 0), Some (Num 6)],
      [(5000, TShowScoreboard ''ROOM42''), (5000, TShowScoreboard ''ROOM42'')])"
proof -
  have a: "snapshot (run topics3 guessedTrace initialWorld) ''ROOM42'' 0 [''Ann'', ''Bob''] =
     (Some (True, [''Ann'', ''Bob'']), Some 0, Some (''guessing'', 1, Some ''Ann'', Some ''true''),
      Some [Some (Num 0), Some (Num 0)],
      [(1000, TCalculateConfessionResults ''ROOM42'')])"
    by (simp add: model_defs trace_defs race_defs snapshot_def)
  have b: "snapshot (run topics3 resentGuessTrace initialWorld) ''ROOM42'' 0 [''Ann'', ''Bob''] =
     (Some (True, [''Ann'', ''Bob'']), Some 0, Some (''guessing'', 1, Some ''Ann'', Some ''true''),
      Some [Some (Num 0), Some (Num 0)],
      [(1000, TCalculateConfessionResults ''ROOM42''),
       (1000, TCalculateConfessionResults ''ROOM42'')])"
    by (simp add: model_defs trace_defs race_defs snapshot_def)
  have c: "snapshot (run topics3 (resentGuessTrace @ [Timeout 0 0]) initialWorld) ''ROOM42'' 0
       [''Ann'', ''Bob''] =
     (Some (True, [''Ann'', ''Bob'']), Some 0,
      Some (''confession-results'', 1, Some ''Ann'', Some ''true''),
      Some [Some (Num 0), Some (Num 3)],
      [(1000, TCalculateConfessionResults ''ROOM42''), (5000, TShowScoreboard ''ROOM42'')])"
    by (simp add: model_defs trace_defs race_defs snapshot_def)
  have d: "snapshot (run topics3 (resentGuessTrace @ [Timeout 0 0, Timeout 0 0]) initialWorld)
       ''ROOM42'' 0 [''Ann'', ''Bob''] =
     (Some (True, [''Ann'', ''Bob'']), Some 0,
      Some (''confession-results'', 1, Some ''Ann'', Some ''true''),
      Some [Some (Num 0), Some (Num 6)],
      [(5000, TShowScoreboard ''ROOM42''), (5000, TShowScoreboard ''ROOM42'')])"
    by (simp add: model_defs trace_defs race_defs snapshot_def)
  from a b c d show ?thesis by simp
qed
subsection \<open>One countdown per session\<close>

text \<open>
  Claim C5 on a concrete session.  \<open>startTimer\<close> clears the interval recorded in the
  GameState object it finds under the code, but \<open>start-game\<close> has no test for a game
  that is already running: it registers a new GameState object whose \<open>timerInterval\<close>
  is \<open>null\<close> and leaves the countdown of the replaced object running.  After the second
  \<open>start-game\<close> of the host the session has two active countdowns, each of which calls
  \<open>calculateInitialResults\<close> for the code when it reaches zero.  Both reach zero within
  three seconds of each other: the single vote of the round is resolved twice, each
  majority voter has 2 points, and the player selection is scheduled twice.
\<close>

lemma startTimer_replaces:
  assumes "gameStates w c = Some r" and "heap w r = Some g"
  shows "intervals (startTimer c s cb w) =
           ((case timerInterval g of None \<Rightarrow> intervals w | Some h \<Rightarrow> (intervals w)(h := None)))
             (nextHandle w \<mapsto> (c, r, cb))"
  using assms
  by (simp add: startTimer_def getGameState_def Let_def clearInterval_def setGameState_def
      split: option.splits)

theorem second_start_game_leaves_two_countdowns:
  "gameStates (run topics3 lobbyTrace initialWorld) ''ROOM42'' = Some 0 \<and>
   map (intervals (run topics3 lobbyTrace initialWorld)) [0, 1]
     = [Some (''ROOM42'', 0, CbCalculateInitialResults), None] \<and>
   gameStates (run topics3 twoTimersTrace initialWorld) ''ROOM42'' = Some 1 \<and>
   map (intervals (run topics3 twoTimersTrace initialWorld)) [0, 1]
     = [Some (''ROOM42'', 0, CbCalculateInitialResults),
        Some (''ROOM42'', 1, CbCalculateInitialResults)] \<and>
   gameView (run topics3 doubleFireTrace initialWorld) 1
     = Some (''initial-results'', 1, None, None) \<and>
   scoreView (run topics3 doubleFireTrace initialWorld) 1 [''Ann'', ''Bob'']
     = Some [Some (Num 2), Some (Num 2)] \<and>
   timeouts (run topics3 doubleFireTrace initialWorld)
     = [(4000, TSelectRandomPlayer ''ROOM42''), (4000, TSelectRandomPlayer ''ROOM42'')] \<and>
   (\<forall>w c u. intervals (startGame c u w) = intervals w)"
proof -
  have keep: "intervals (startGame c u w) = intervals w" for w c u
    by (simp add: startGame_def Let_def split: option.splits)
  have a: "gameStates (run topics3 lobbyTrace initialWorld) ''ROOM42'' = Some 0 \<and>
      map (intervals (run topics3 lobbyTrace initialWorld)) [0, 1]
        = [Some (''ROOM42'', 0, CbCalculateInitialResults), None]"
    by (simp add: model_defs trace_defs)
  have b: "gameStates (run topics3 twoTimersTrace initialWorld) ''ROOM42'' = Some 1 \<and>
      map (intervals (run topics3 twoTimersTrace initialWorld)) [0, 1]
        = [Some (''ROOM42'', 0, CbCalculateInitialResults),
           Some (''ROOM42'', 1, CbCalculateInitialResults)]"
    by (simp add: model_defs trace_defs)
  have c: "snapshot (run topics3 doubleFireTrace initialWorld) ''ROOM42'' 1 [''Ann'', ''Bob''] =
      (Some (True, [''Ann'', ''Bob'']), Some 1, Some (''initial-results'', 1, None, None),
       Some [Some (Num 2), Some (Num 2)],
       [(4000, TSelectRandomPlayer ''ROOM42''), (4000, TSelectRandomPlayer ''ROOM42'')])"
    by (simp add: model_defs trace_defs snapshot_def)
  from a b c keep show ?thesis
    unfolding snapshot_def by simp
qed

subsection \<open>Rejoining within the grace window\<close>

text \<open>
  Claim C6 on a concrete session.  The \<open>join-lobby\<close> handler sets \<open>connected\<close> back to
  true and touches neither the roster order nor the scores, but neither it nor
  \<open>/api/lobby/join\<close> changes \<open>disconnectedPlayers\<close>: Bob, connected again right after
  his disconnection, is still tracked, and the sweep that runs five minutes later
  filters him out of the roster.
\<close>

theorem rejoined_player_is_swept:
  "map_option (map (\<lambda>p. (username p, connected p)) \<circ> participants)
     (lobbies (run topics3 rejoinTrace initialWorld) ''ROOM42'')
     = Some [(''Ann'', True), (''Bob'', True)] \<and>
   disconnectedPlayers (run topics3 rejoinTrace initialWorld) = [(''Bob'', ''ROOM42'', 1000)] \<and>
   map_option (map (\<lambda>p. (username p, connected p)) \<circ> participants)
     (lobbies (run topics3 (rejoinTrace @ [Sweep 301001]) initialWorld) ''ROOM42'')
     = Some [(''Ann'', True)] \<and>
   (\<forall>w sid c u. disconnectedPlayers (joinLobby sid c u w) = disconnectedPlayers w) \<and>
   (\<forall>w c u. disconnectedPlayers (httpJoin c u w) = disconnectedPlayers w)"
proof -
  have trace: "map_option (map (\<lambda>p. (username p, connected p)) \<circ> participants)
       (lobbies (run topics3 rejoinTrace initialWorld) ''ROOM42'')
       = Some [(''Ann'', True), (''Bob'', True)] \<and>
     disconnectedPlayers (run topics3 rejoinTrace initialWorld) = [(''Bob'', ''ROOM42'', 1000)] \<and>
     map_option (map (\<lambda>p. (username p, connected p)) \<circ> participants)
       (lobbies (run topics3 (rejoinTrace @ [Sweep 301001]) initialWorld) ''ROOM42'')
       = Some [(''Ann'', True)]"
    by (simp add: model_defs trace_defs)
  have join: "disconnectedPlayers (joinLobby sid c u w) = disconnectedPlayers w" for w sid c u
    by (simp add: joinLobby_def Let_def split: option.splits)
  have http: "disconnectedPlayers (httpJoin c u w) = disconnectedPlayers w" for w c u
    by (simp add: httpJoin_def Let_def split: option.splits)
  from trace join http show ?thesis by blast
qed

subsection \<open>Destruction of a lobby\<close>

text \<open>
  Claim C7, as stated, fails: the handlers of \<open>leave-lobby\<close> and \<open>disconnect\<close> treat a
  game whose phase is \<open>waiting\<close> like no game at all, and \<open>waiting\<close> is the phase of the
  three second dwell between two rounds.  After the first round of Ann and Bob the game
  is in round 2 with the next voting phase scheduled; when the host Ann leaves, or her
  socket disconnects, the lobby and the game state are deleted.
\<close>

theorem host_leaves_between_rounds_counterexample:
  "gameView (run topics3 firstRoundTrace initialWorld) 0
     = Some (''waiting'', 2, Some ''Ann'', Some ''true'') \<and>
   timeouts (run topics3 firstRoundTrace initialWorld)
     = [(3000, TStartInitialVotingPhase ''ROOM42'')] \<and>
   map_option (\<lambda>l. (gameStarted l, map username (participants l)))
       (lobbies (run topics3 firstRoundTrace initialWorld) ''ROOM42'')
     = Some (True, [''Ann'', ''Bob'']) \<and>
   lobbies (run topics3 (firstRoundTrace @ [LeaveLobby 1 ''ROOM42'' ''Ann'' 90000]) initialWorld)
       ''ROOM42'' = None \<and>
   gameStates (run topics3 (firstRoundTrace @ [LeaveLobby 1 ''ROOM42'' ''Ann'' 90000]) initialWorld)
       ''ROOM42'' = None \<and>
   lobbies (run topics3 (firstRoundTrace @ [Disconnect 1 90000]) initialWorld) ''ROOM42'' = None"
proof -
  have a: "snapshot (run topics3 firstRoundTrace initialWorld) ''ROOM42'' 0 [] =
      (Some (True, [''Ann'', ''Bob'']), Some 0, Some (''waiting'', 2, Some ''Ann'', Some ''true''),
       Some [], [(3000, TStartInitialVotingPhase ''ROOM42'')])"
    by (simp add: model_defs trace_defs snapshot_def)
  have b: "snapshot (run topics3 (firstRoundTrace @ [LeaveLobby 1 ''ROOM42'' ''Ann'' 90000])
                       initialWorld) ''ROOM42'' 0 [] =
      (None, None, Some (''waiting'', 2, Some ''Ann'', Some ''true''),
       Some [], [(3000, TStartInitialVotingPhase ''ROOM42'')])"
    by (simp add: model_defs trace_defs snapshot_def)
  have c: "lobbies (run topics3 (firstRoundTrace @ [Disconnect 1 90000]) initialWorld) ''ROOM42''
      = None"
    by (simp add: model_defs trace_defs)
  from a b c show ?thesis
    unfolding snapshot_def by simp
qed

text \<open>
  Claim C7, amended.  While a game state exists whose phase is not \<open>waiting\<close>, a leave or
  a disconnect never deletes the lobby, whoever leaves: the participant is only marked
  disconnected.  Otherwise (no game state, or phase \<open>waiting\<close>) a leave deletes the lobby
  exactly when the roster without the leaver is empty or the leaver is the host, and a
  disconnect does so exactly when in addition the name is in the roster.
\<close>

theorem lobby_destroyed_only_outside_active_game:
  assumes lob: "lobbies w c = Some l"
  shows "(gameActive w c \<longrightarrow>
            lobbies (leaveLobby c u now w) c =
              Some (if hasParticipant u (participants l)
                    then l\<lparr>participants := setConnected u False (participants l)\<rparr> else l) \<and>
            lobbies (disconnectFrom c u now w) c =
              Some (if hasParticipant u (participants l)
                    then l\<lparr>participants := setConnected u False (participants l)\<rparr> else l) \<and>
            gameStates (leaveLobby c u now w) c = gameStates w c \<and>
            gameStates (disconnectFrom c u now w) c = gameStates w c) \<and>
         (\<not> gameActive w c \<longrightarrow>
            (lobbies (leaveLobby c u now w) c = None \<longleftrightarrow>
               removeParticipant u (participants l) = [] \<or> u = host l) \<and>
            (lobbies (disconnectFrom c u now w) c = None \<longleftrightarrow>
               hasParticipant u (participants l) \<and>
               (removeParticipant u (participants l) = [] \<or> u = host l)))"
  using lob
  by (auto simp: leaveLobby_def disconnectFrom_def markDisconnected_def emit_def Let_def
      split: option.splits)

theorem lobby_destroyed_only_outside_active_game_witness:
  "gameActive (worldOf lobbyAB (scoreboardAB 1 [1])) ''ROOM42'' \<and>
   map_option (map (\<lambda>p. (username p, connected p)) \<circ> participants)
     (lobbies (leaveLobby ''ROOM42'' ''Ann'' 90000 (worldOf lobbyAB (scoreboardAB 1 [1]))) ''ROOM42'')
     = Some [(''Ann'', False), (''Bob'', True)] \<and>
   \<not> gameActive (run topics3 (take 6 lobbyTrace) initialWorld) ''ROOM42'' \<and>
   lobbies (leaveLobby ''ROOM42'' ''Ann'' 90000 (run topics3 (take 6 lobbyTrace) initialWorld)) ''ROOM42''
     = None \<and>
   lobbies (leaveLobby ''ROOM42'' ''Bob'' 90000 (run topics3 (take 6 lobbyTrace) initialWorld)) ''ROOM42''
     \<noteq> None"
proof -
  have h: "lobbies (worldOf lobbyAB (scoreboardAB 1 [1])) ''ROOM42'' = Some lobbyAB"
    by (simp add: lobbyAB_def)
  have act: "gameActive (worldOf lobbyAB (scoreboardAB 1 [1])) ''ROOM42''"
    by (simp add: gameActive_def getGameState_def lobbyAB_def scoreboardAB_def)
  have k: "lobbies (run topics3 (take 6 lobbyTrace) initialWorld) ''ROOM42'' =
      Some \<lparr>code = ''ROOM42'', host = ''Ann'',
             participants = [\<lparr>username = ''Ann'', isHost = True, connected = True\<rparr>,
                             \<lparr>username = ''Bob'', isHost = False, connected = True\<rparr>],
             gameStarted = False\<rparr>"
    by (simp add: model_defs lobbyTrace_def initialWorld_def)
  have idle: "\<not> gameActive (run topics3 (take 6 lobbyTrace) initialWorld) ''ROOM42''"
    by (simp add: model_defs lobbyTrace_def initialWorld_def)
  show ?thesis
    using lobby_destroyed_only_outside_active_game [OF h, of "''Ann''" 90000]
      lobby_destroyed_only_outside_active_game [OF k, of "''Ann''" 90000]
      lobby_destroyed_only_outside_active_game [OF k, of "''Bob''" 90000]
      act idle
    by (simp add: hasParticipant_def removeParticipant_def lobbyAB_def)
qed

subsection \<open>Recording the chosen prompt\<close>

text \<open>
  Claim C8 on a catalog with a repeated prompt.  \<open>startInitialVotingPhase\<close> filters the
  catalog by index but records \<open>indexOf\<close> of the chosen string, which is the index of
  the first entry with that text.  With the catalog entries 0 and 1 equal, choosing
  entry 1 records index 0, entry 1 stays available and is chosen again in the next round,
  and index 0 is recorded a second time.
\<close>

theorem duplicate_prompt_recorded_under_first_index:
  "filter (\<lambda>(i, t). int i \<notin> set []) (enumerate 0 dupTopics) ! randomIndex 1 3
     = (1, ''eaten a bug on purpose'') \<and>
   map_option usedTopics
     (heap (startInitialVotingPhase dupTopics 1 ''ROOM42'' (worldOf lobbyAB freshGame)) 0)
     = Some [0] \<and>
   filter (\<lambda>(i, t). int i \<notin> set [0]) (enumerate 0 dupTopics) ! randomIndex 0 2
     = (1, ''eaten a bug on purpose'') \<and>
   map_option usedTopics
     (heap (startInitialVotingPhase dupTopics 0 ''ROOM42''
              (startInitialVotingPhase dupTopics 1 ''ROOM42'' (worldOf lobbyAB freshGame))) 0)
     = Some [0, 0] \<and>
   availableTopics dupTopics [0, 0] = [''eaten a bug on purpose'', ''gone skinny dipping'']"
  by (simp add: model_defs dupTopics_def lobbyAB_def freshGame_def)

subsection \<open>End of the game\<close>







subsection \<open>Score entries are never deleted\<close>

lemma kept_refl: "scoreKeysKept w w"
  by (simp add: scoreKeysKept_def)

lemma kept_trans: "scoreKeysKept w w1 \<Longrightarrow> scoreKeysKept w1 w2 \<Longrightarrow> scoreKeysKept w w2"
  unfolding scoreKeysKept_def by (meson subset_trans)

lemma kept_same_heap: "heap w' = heap w \<Longrightarrow> scoreKeysKept w w'"
  by (simp add: scoreKeysKept_def)

lemma kept_update:
  "heap w r = Some g \<Longrightarrow> dom (scores g) \<subseteq> dom (scores g') \<Longrightarrow> heap w' = (heap w)(r \<mapsto> g') \<Longrightarrow>
   scoreKeysKept w w'"
  by (auto simp: scoreKeysKept_def)

lemma dom_fold_awardVote: "dom sc \<subseteq> dom (fold (awardVote m votes) ps sc)"
proof (induction ps arbitrary: sc)
  case Nil
  show ?case by simp
next
  case (Cons p ps)
  have "dom sc \<subseteq> dom (awardVote m votes p sc)"
    by (auto simp: awardVote_def addScore_def setProp_def)
  also have "\<dots> \<subseteq> dom (fold (awardVote m votes) ps (awardVote m votes p sc))"
    by (rule Cons.IH)
  finally show ?case by simp
qed

lemma dom_awardMajority: "dom sc \<subseteq> dom (awardMajority mo votes ps sc)"
  by (cases mo) (simp_all add: awardMajority_def dom_fold_awardVote)

lemma dom_awardGuesses: "dom sc \<subseteq> dom (awardGuesses a gs sel ps sc)"
  unfolding awardGuesses_def
proof (induction ps arbitrary: sc)
  case Nil
  show ?case by simp
next
  case (Cons p ps)
  have "dom sc \<subseteq> dom (awardGuess a gs sel p sc)"
    by (auto simp: awardGuess_def addScore_def setProp_def)
  also have "\<dots> \<subseteq> dom (fold (awardGuess a gs sel) ps (awardGuess a gs sel p sc))"
    by (rule Cons.IH)
  finally show ?case by simp
qed

lemma seedScores_apply:
  "seedScores ps sc u =
     (if u \<in> username ` set ps \<and> u \<noteq> ''__proto__'' then Some (Num 0) else sc u)"
  unfolding seedScores_def
  by (induction ps arbitrary: sc) (auto simp: setProp_def)

lemma dom_seedScores: "dom sc \<subseteq> dom (seedScores ps sc)"
  by (auto simp: seedScores_apply)

lemma awardMajority_defined:
  "sc x = Some y \<Longrightarrow> \<exists>y'. awardMajority mo votes ps sc x = Some y'"
  using dom_awardMajority [of sc mo votes ps] by blast

lemma awardGuesses_defined:
  "sc x = Some y \<Longrightarrow> \<exists>y'. awardGuesses a gs sel ps sc x = Some y'"
  using dom_awardGuesses [of sc a gs sel ps] by blast

lemma seedScores_defined:
  "sc x = Some y \<Longrightarrow> \<exists>y'. seedScores ps sc x = Some y'"
  by (simp add: seedScores_apply)

lemma setProp_defined:
  "sc x = Some y \<Longrightarrow> \<exists>y'. setProp sc k v x = Some y'"
  by (simp add: setProp_def)

lemma getGameState_SomeD:
  "getGameState w c = Some (r, g) \<Longrightarrow> heap w r = Some g"
  by (auto simp: getGameState_def split: option.splits)

lemma kept_endGame: "scoreKeysKept w (endGame c w)"
  by (auto simp: endGame_def intro!: kept_same_heap split: option.splits)

lemma kept_startTimer: "scoreKeysKept w (startTimer c s cb w)"
  by (auto simp: startTimer_def Let_def kept_refl split: option.splits
      dest!: getGameState_SomeD intro!: kept_update [where g' = "g\<lparr>timer := s, timerInterval := Some h\<rparr>" for g h])


lemma kept_then_startTimer:
  "scoreKeysKept w w1 \<Longrightarrow> scoreKeysKept w (startTimer c s cb w1)"
  by (rule kept_trans [OF _ kept_startTimer])

lemma kept_then_endGame:
  "scoreKeysKept w w1 \<Longrightarrow> scoreKeysKept w (endGame c w1)"
  by (rule kept_trans [OF _ kept_endGame])

lemma kept_calculateInitialResults: "scoreKeysKept w (calculateInitialResults c w)"
  by (auto simp: calculateInitialResults_def Let_def scoreKeysKept_def
      split: option.splits dest!: getGameState_SomeD
      intro: awardMajority_defined)

lemma kept_calculateConfessionResults: "scoreKeysKept w (calculateConfessionResults c w)"
  by (auto simp: calculateConfessionResults_def Let_def scoreKeysKept_def
      split: option.splits dest!: getGameState_SomeD
      intro: awardGuesses_defined)

lemma kept_startInitialVotingPhase: "scoreKeysKept w (startInitialVotingPhase topics rnd c w)"
  by (auto simp: startInitialVotingPhase_def Let_def kept_refl kept_endGame
      split: option.splits dest!: getGameState_SomeD
      intro!: kept_then_startTimer)
    (auto simp: scoreKeysKept_def)

lemma kept_selectRandomPlayer: "scoreKeysKept w (selectRandomPlayer rnd c w)"
  by (auto simp: selectRandomPlayer_def Let_def kept_refl kept_endGame
      split: option.splits dest!: getGameState_SomeD)
    (auto simp: scoreKeysKept_def)

lemma kept_startConfessionPhase: "scoreKeysKept w (startConfessionPhase c w)"
  by (auto simp: startConfessionPhase_def Let_def kept_refl
      split: option.splits dest!: getGameState_SomeD
      intro!: kept_then_startTimer)
    (auto simp: scoreKeysKept_def)

lemma kept_startGuessingPhase: "scoreKeysKept w (startGuessingPhase c w)"
  by (auto simp: startGuessingPhase_def Let_def kept_refl
      split: option.splits dest!: getGameState_SomeD
      intro!: kept_then_startTimer)
    (auto simp: scoreKeysKept_def)

lemma kept_showScoreboard: "scoreKeysKept w (showScoreboard c w)"
  by (auto simp: showScoreboard_def Let_def scoreKeysKept_def
      split: option.splits dest!: getGameState_SomeD)

lemma kept_scoreboardDwell: "scoreKeysKept w (scoreboardDwell topics c r w)"
  by (auto simp: scoreboardDwell_def Let_def kept_refl
      split: option.splits intro!: kept_then_endGame)
    (auto simp: scoreKeysKept_def)

lemma kept_runTimerCallback: "scoreKeysKept w (runTimerCallback cb c r w)"
proof (cases cb)
  case CbCalculateInitialResults
  then show ?thesis by (simp add: runTimerCallback_def kept_calculateInitialResults)
next
  case CbConfessionTimeout
  have "scoreKeysKept w (case heap w r of None \<Rightarrow> w
      | Some g \<Rightarrow> if confession g = None then setGameState r (g\<lparr>confession := Some ''true''\<rparr>) w else w)"
    by (auto simp: scoreKeysKept_def split: option.splits)
  then show ?thesis
    using CbConfessionTimeout
    by (simp add: runTimerCallback_def) (rule kept_trans [OF _ kept_startGuessingPhase])
next
  case CbCalculateConfessionResults
  then show ?thesis by (simp add: runTimerCallback_def kept_calculateConfessionResults)
qed

lemma kept_timerTick: "scoreKeysKept w (timerTick h w)"
  by (auto simp: timerTick_def Let_def kept_refl split: option.splits
      intro!: kept_trans [OF _ kept_runTimerCallback])
    (auto simp: scoreKeysKept_def)

lemma heap_syncGameStateToPlayer: "heap (syncGameStateToPlayer sid c w) = heap w"
  by (simp add: syncGameStateToPlayer_def Let_def split: option.splits)

lemma heap_httpCreate: "heap (httpCreate c u w) = heap w"
  by (simp add: httpCreate_def Let_def)

lemma kept_httpJoin: "scoreKeysKept w (httpJoin c u w)"
  by (auto simp: httpJoin_def Let_def scoreKeysKept_def getGameState_def setProp_def
      split: option.splits)

lemma heap_joinLobby: "heap (joinLobby sid c u w) = heap w"
  by (simp add: joinLobby_def Let_def split: option.splits)

lemma heap_leaveLobby: "heap (leaveLobby c u now w) = heap w"
  by (simp add: leaveLobby_def markDisconnected_def Let_def split: option.splits)

lemma heap_disconnectFrom: "heap (disconnectFrom c u now w) = heap w"
  by (simp add: disconnectFrom_def markDisconnected_def Let_def split: option.splits)

lemma heap_disconnect: "heap (disconnect sid now w) = heap w"
  by (simp add: disconnect_def heap_disconnectFrom Let_def split: option.splits)

lemma heap_sweep: "heap (sweep now w) = heap w"
  by (simp add: sweep_def heap_sweepEntries)

lemma kept_startGame: "heap w (nextRef w) = None \<Longrightarrow> scoreKeysKept w (startGame c u w)"
  by (auto simp: startGame_def Let_def scoreKeysKept_def split: option.splits)

lemma kept_castInitialVote: "scoreKeysKept w (castInitialVote c u v w)"
  by (auto simp: castInitialVote_def Let_def scoreKeysKept_def
      split: option.splits dest!: getGameState_SomeD)

lemma kept_makeConfession: "scoreKeysKept w (makeConfession c u cf w)"
  by (auto simp: makeConfession_def Let_def scoreKeysKept_def
      split: option.splits dest!: getGameState_SomeD)

lemma kept_makeGuess: "scoreKeysKept w (makeGuess c u gs w)"
  by (auto simp: makeGuess_def Let_def scoreKeysKept_def
      split: option.splits dest!: getGameState_SomeD)

lemma kept_restartGame: "scoreKeysKept w (restartGame sid c w)"
  by (auto simp: restartGame_def Let_def scoreKeysKept_def
      split: option.splits dest!: getGameState_SomeD
      intro: seedScores_defined)

lemma kept_runTask: "scoreKeysKept w (runTask topics rnd t w)"
  by (cases t)
    (simp_all add: runTask_def kept_same_heap heap_syncGameStateToPlayer
      kept_startInitialVotingPhase kept_calculateInitialResults kept_selectRandomPlayer
      kept_startConfessionPhase kept_startGuessingPhase kept_calculateConfessionResults
      kept_showScoreboard kept_scoreboardDwell)

lemma kept_fireTimeout: "scoreKeysKept w (fireTimeout topics i rnd w)"
proof (cases "i < length (timeouts w)")
  case True
  have "scoreKeysKept w (w\<lparr>timeouts := take i (timeouts w) @ drop (Suc i) (timeouts w)\<rparr>)"
    by (simp add: kept_same_heap)
  then show ?thesis
    using True by (simp add: fireTimeout_def) (rule kept_trans [OF _ kept_runTask])
next
  case False
  then show ?thesis by (simp add: fireTimeout_def kept_refl)
qed

lemma kept_step:
  "heap w (nextRef w) = None \<Longrightarrow> scoreKeysKept w (step topics ev w)"
  by (cases ev)
    (simp_all add: step_def onSocket_def kept_refl kept_same_heap heap_httpCreate kept_httpJoin
      heap_joinLobby heap_leaveLobby kept_startGame kept_castInitialVote kept_makeConfession
      kept_makeGuess heap_syncGameStateToPlayer kept_restartGame heap_disconnect heap_sweep
      kept_fireTimeout kept_timerTick)


lemma fresh_same: "heap w' = heap w \<Longrightarrow> nextRef w' = nextRef w \<Longrightarrow> heapFresh w \<Longrightarrow> heapFresh w'"
  by (simp add: heapFresh_def)

lemma fresh_update:
  "heapFresh w \<Longrightarrow> heap w r = Some g \<Longrightarrow> heapFresh (setGameState r g' w)"
  by (auto simp: heapFresh_def)

lemma fresh_crashed [simp]: "heapFresh (w\<lparr>crashed := b\<rparr>) = heapFresh w"
  by (simp add: heapFresh_def)

lemma fresh_emit [simp]: "heapFresh (emit d p w) = heapFresh w"
  by (simp add: heapFresh_def)

lemma fresh_setTimeout [simp]: "heapFresh (setTimeout t ms w) = heapFresh w"
  by (simp add: heapFresh_def)

lemma fresh_clearInterval [simp]: "heapFresh (clearInterval ho w) = heapFresh w"
  by (simp add: heapFresh_def)

lemma getGameState_setGameState:
  "getGameState (setGameState r g w) c =
     (case gameStates w c of None \<Rightarrow> None
      | Some r' \<Rightarrow> if r' = r then Some (r, g) else
          (case heap w r' of None \<Rightarrow> None | Some g' \<Rightarrow> Some (r', g')))"
  by (simp add: getGameState_def setGameState_def split: option.splits)

lemma fresh_endGame: "heapFresh w \<Longrightarrow> heapFresh (endGame c w)"
  by (simp add: endGame_def split: option.splits)

lemma fresh_startTimer: "heapFresh w \<Longrightarrow> heapFresh (startTimer c s cb w)"
  by (auto simp: startTimer_def Let_def heapFresh_def split: option.splits
      dest!: getGameState_SomeD)

lemma fresh_calculateInitialResults: "heapFresh w \<Longrightarrow> heapFresh (calculateInitialResults c w)"
  by (auto simp: calculateInitialResults_def Let_def split: option.splits
      dest!: getGameState_SomeD intro: fresh_update)

lemma fresh_calculateConfessionResults:
  "heapFresh w \<Longrightarrow> heapFresh (calculateConfessionResults c w)"
  by (auto simp: calculateConfessionResults_def Let_def split: option.splits
      dest!: getGameState_SomeD intro: fresh_update)

lemma fresh_startInitialVotingPhase:
  "heapFresh w \<Longrightarrow> heapFresh (startInitialVotingPhase topics rnd c w)"
  by (auto simp: startInitialVotingPhase_def Let_def fresh_endGame split: option.splits
      dest!: getGameState_SomeD intro!: fresh_startTimer intro: fresh_update)

lemma fresh_selectRandomPlayer: "heapFresh w \<Longrightarrow> heapFresh (selectRandomPlayer rnd c w)"
  by (auto simp: selectRandomPlayer_def Let_def fresh_endGame split: option.splits
      dest!: getGameState_SomeD intro: fresh_update)

lemma fresh_startConfessionPhase: "heapFresh w \<Longrightarrow> heapFresh (startConfessionPhase c w)"
  by (auto simp: startConfessionPhase_def Let_def split: option.splits
      dest!: getGameState_SomeD intro!: fresh_startTimer intro: fresh_update)

lemma fresh_startGuessingPhase: "heapFresh w \<Longrightarrow> heapFresh (startGuessingPhase c w)"
  by (auto simp: startGuessingPhase_def Let_def split: option.splits
      dest!: getGameState_SomeD intro!: fresh_startTimer intro: fresh_update)

lemma fresh_showScoreboard: "heapFresh w \<Longrightarrow> heapFresh (showScoreboard c w)"
  by (auto simp: showScoreboard_def Let_def split: option.splits
      dest!: getGameState_SomeD intro: fresh_update)

lemma fresh_scoreboardDwell: "heapFresh w \<Longrightarrow> heapFresh (scoreboardDwell topics c r w)"
  by (auto simp: scoreboardDwell_def Let_def split: option.splits
      intro!: fresh_endGame intro: fresh_update)

lemma fresh_runTimerCallback: "heapFresh w \<Longrightarrow> heapFresh (runTimerCallback cb c r w)"
  by (cases cb)
    (auto simp: runTimerCallback_def fresh_calculateInitialResults
      fresh_calculateConfessionResults split: option.splits
      intro!: fresh_startGuessingPhase intro: fresh_update)

lemma fresh_timerTick: "heapFresh w \<Longrightarrow> heapFresh (timerTick h w)"
  by (auto simp: timerTick_def Let_def split: option.splits
      intro!: fresh_runTimerCallback intro: fresh_update)
    (auto simp: heapFresh_def)


lemma fresh_syncGameStateToPlayer: "heapFresh w \<Longrightarrow> heapFresh (syncGameStateToPlayer sid c w)"
  by (simp add: syncGameStateToPlayer_def Let_def split: option.splits)

lemma fresh_httpCreate: "heapFresh w \<Longrightarrow> heapFresh (httpCreate c u w)"
  by (simp add: httpCreate_def Let_def) (simp add: heapFresh_def)

lemma fresh_httpJoin: "heapFresh w \<Longrightarrow> heapFresh (httpJoin c u w)"
  by (auto simp: httpJoin_def Let_def heapFresh_def getGameState_def split: option.splits)

lemma fresh_joinLobby: "heapFresh w \<Longrightarrow> heapFresh (joinLobby sid c u w)"
  by (auto simp: joinLobby_def Let_def split: option.splits) (auto simp: heapFresh_def)

lemma fresh_leaveLobby: "heapFresh w \<Longrightarrow> heapFresh (leaveLobby c u now w)"
  by (auto simp: leaveLobby_def markDisconnected_def Let_def split: option.splits)
    (auto simp: heapFresh_def)

lemma fresh_startGame: "heapFresh w \<Longrightarrow> heapFresh (startGame c u w)"
  by (auto simp: startGame_def Let_def split: option.splits) (auto simp: heapFresh_def)

lemma fresh_castInitialVote: "heapFresh w \<Longrightarrow> heapFresh (castInitialVote c u v w)"
  by (auto simp: castInitialVote_def Let_def heapFresh_def split: option.splits
      dest!: getGameState_SomeD)

lemma fresh_makeConfession: "heapFresh w \<Longrightarrow> heapFresh (makeConfession c u cf w)"
  by (auto simp: makeConfession_def Let_def heapFresh_def split: option.splits
      dest!: getGameState_SomeD)

lemma fresh_makeGuess: "heapFresh w \<Longrightarrow> heapFresh (makeGuess c u gs w)"
  by (auto simp: makeGuess_def Let_def heapFresh_def split: option.splits
      dest!: getGameState_SomeD)

lemma fresh_restartGame: "heapFresh w \<Longrightarrow> heapFresh (restartGame sid c w)"
  by (auto simp: restartGame_def Let_def heapFresh_def split: option.splits
      dest!: getGameState_SomeD)

lemma fresh_disconnectFrom: "heapFresh w \<Longrightarrow> heapFresh (disconnectFrom c u now w)"
  by (auto simp: disconnectFrom_def markDisconnected_def Let_def split: option.splits)
    (auto simp: heapFresh_def)

lemma fresh_disconnect: "heapFresh w \<Longrightarrow> heapFresh (disconnect sid now w)"
proof -
  have drop: "heapFresh (v\<lparr>sockets := s\<rparr>) = heapFresh v" for v s
    by (simp add: heapFresh_def)
  show "heapFresh w \<Longrightarrow> heapFresh (disconnect sid now w)"
    by (auto simp: disconnect_def Let_def drop fresh_disconnectFrom split: option.splits)
qed

lemma fresh_sweepEntry: "heapFresh w \<Longrightarrow> heapFresh (sweepEntry u c w)"
  by (auto simp: sweepEntry_def Let_def split: option.splits) (auto simp: heapFresh_def)

lemma fresh_sweepEntries: "heapFresh w \<Longrightarrow> heapFresh (sweepEntries now es w)"
  by (induction now es w rule: sweepEntries.induct) (simp_all add: fresh_sweepEntry)

lemma fresh_runTask: "heapFresh w \<Longrightarrow> heapFresh (runTask topics rnd t w)"
  by (cases t)
    (simp_all add: runTask_def fresh_syncGameStateToPlayer
      fresh_startInitialVotingPhase fresh_calculateInitialResults fresh_selectRandomPlayer
      fresh_startConfessionPhase fresh_startGuessingPhase fresh_calculateConfessionResults
      fresh_showScoreboard fresh_scoreboardDwell)

lemma fresh_fireTimeout: "heapFresh w \<Longrightarrow> heapFresh (fireTimeout topics i rnd w)"
proof -
  have drop: "heapFresh (v\<lparr>timeouts := s\<rparr>) = heapFresh v" for v s
    by (simp add: heapFresh_def)
  show "heapFresh w \<Longrightarrow> heapFresh (fireTimeout topics i rnd w)"
    by (simp add: fireTimeout_def fresh_runTask drop)
qed

lemma fresh_step: "heapFresh w \<Longrightarrow> heapFresh (step topics ev w)"
proof -
  have drop: "heapFresh (v\<lparr>sockets := s\<rparr>) = heapFresh v" for v s
    by (simp add: heapFresh_def)
  show "heapFresh w \<Longrightarrow> heapFresh (step topics ev w)"
    by (cases ev)
      (simp_all add: step_def onSocket_def drop fresh_httpCreate fresh_httpJoin
        fresh_joinLobby fresh_leaveLobby fresh_startGame fresh_castInitialVote
        fresh_makeConfession fresh_makeGuess fresh_syncGameStateToPlayer fresh_restartGame
        fresh_disconnect sweep_def fresh_sweepEntries fresh_fireTimeout fresh_timerTick)
qed

lemma fresh_run: "heapFresh w \<Longrightarrow> heapFresh (run topics evs w)"
  unfolding run_def by (induction evs arbitrary: w) (simp_all add: fresh_step)

lemma kept_run: "heapFresh w \<Longrightarrow> scoreKeysKept w (run topics evs w)"
  unfolding run_def
proof (induction evs arbitrary: w)
  case Nil
  show ?case by (simp add: kept_refl)
next
  case (Cons ev evs)
  have one: "scoreKeysKept w (step topics ev w)"
    using Cons.prems by (simp add: kept_step heapFresh_def)
  have rest: "scoreKeysKept (step topics ev w) (fold (step topics) evs (step topics ev w))"
    using Cons.prems by (intro Cons.IH fresh_step)
  from kept_trans [OF one rest] show ?case by simp
qed

lemma fresh_initialWorld: "heapFresh initialWorld"
  by (simp add: heapFresh_def initialWorld_def)


text \<open>
  Claim C10.  In a world whose store is fresh beyond \<open>nextRef\<close> (every reachable world,
  by \<open>fresh_initialWorld\<close> and \<open>fresh_run\<close>), every GameState object keeps all keys
  of its score table under any sequence of events.  The sweep, \<open>leave-lobby\<close> and
  \<open>disconnect\<close> change rosters but no GameState object at all.  An accepted
  \<open>restart-game\<close> sets the score of every name in the current roster to 0 and leaves
  the entry of every other name, such as a departed player, as it is; the name
  \<open>__proto__\<close> is the exception, for which the assignment creates no entry.
\<close>

theorem score_keys_never_shrink:
  assumes fresh: "heapFresh w"
      and obj: "heap w r = Some g"
  shows "(\<exists>g'. heap (run topics evs w) r = Some g' \<and> dom (scores g) \<subseteq> dom (scores g')) \<and>
         heap (sweep now w) = heap w \<and>
         heap (leaveLobby c u now w) = heap w \<and>
         heap (disconnect sid now w) = heap w \<and>
         (\<forall>l. lobbies w c = Some l \<and> gameStates w c = Some r \<and>
              (case sockets w sid of None \<Rightarrow> None | Some s \<Rightarrow> sockUsername s) = Some (host l) \<longrightarrow>
              (\<exists>g'. heap (restartGame sid c w) r = Some g' \<and>
                 (\<forall>n. scores g' n =
                    (if n \<in> username ` set (participants l) \<and> n \<noteq> ''__proto__''
                     then Some (Num 0) else scores g n))))"
proof -
  have a: "\<exists>g'. heap (run topics evs w) r = Some g' \<and> dom (scores g) \<subseteq> dom (scores g')"
    using kept_run [OF fresh, of topics evs] obj by (simp add: scoreKeysKept_def)
  have b: "\<forall>l. lobbies w c = Some l \<and> gameStates w c = Some r \<and>
              (case sockets w sid of None \<Rightarrow> None | Some s \<Rightarrow> sockUsername s) = Some (host l) \<longrightarrow>
              (\<exists>g'. heap (restartGame sid c w) r = Some g' \<and>
                 (\<forall>n. scores g' n =
                    (if n \<in> username ` set (participants l) \<and> n \<noteq> ''__proto__''
                     then Some (Num 0) else scores g n)))"
    using obj
    by (auto simp: restartGame_def getGameState_def Let_def seedScores_apply
        split: option.splits)
  from a b show ?thesis
    by (simp add: heap_sweep heap_leaveLobby heap_disconnect)
qed

text \<open>
  Between two rounds of Ann, Bob and Cat, with Cat disconnected and tracked: the sweep
  evicts Cat from the roster, a \<open>leave-lobby\<close> or a disconnect of Bob removes Bob from
  it, and no GameState object changes.  After the sweep, Bob's leave and Ann's
  \<open>restart-game\<close> the roster is Ann alone; Ann's score is 0 again and the entries of
  Bob and Cat are still there with their 3 and 7 points.
\<close>

theorem score_keys_never_shrink_witness:
  "rosterOf evictionWorld ''ROOM42'' = Some [''Ann'', ''Bob'', ''Cat''] \<and>
   scoreView evictionWorld 0 [''Ann'', ''Bob'', ''Cat'']
     = Some [Some (Num 4), Some (Num 3), Some (Num 7)] \<and>
   rosterOf (sweep 301500 evictionWorld) ''ROOM42'' = Some [''Ann'', ''Bob''] \<and>
   heap (sweep 301500 evictionWorld) = heap evictionWorld \<and>
   rosterOf (leaveLobby ''ROOM42'' ''Bob'' 302000 evictionWorld) ''ROOM42''
     = Some [''Ann'', ''Cat''] \<and>
   heap (leaveLobby ''ROOM42'' ''Bob'' 302000 evictionWorld) = heap evictionWorld \<and>
   rosterOf (disconnect 2 302000 evictionWorld) ''ROOM42'' = Some [''Ann'', ''Cat''] \<and>
   heap (disconnect 2 302000 evictionWorld) = heap evictionWorld \<and>
   rosterOf (run topics3 evictionTrace evictionWorld) ''ROOM42'' = Some [''Ann''] \<and>
   scoreView (run topics3 evictionTrace evictionWorld) 0 [''Ann'', ''Bob'', ''Cat'']
     = Some [Some (Num 0), Some (Num 3), Some (Num 7)] \<and>
   (\<exists>g'. heap (run topics3 evictionTrace evictionWorld) 0 = Some g' \<and>
          dom (scores waitingABC) \<subseteq> dom (scores g')) \<and>
   (\<exists>g'. heap (restartGame 1 ''ROOM42'' staleWorld) 0 = Some g' \<and>
          scores g' ''Ann'' = Some (Num 0) \<and> scores g' ''Bob'' = Some (Num 0) \<and>
          scores g' ''Cat'' = Some (Num 7))"
proof -
  have f: "heapFresh evictionWorld"
    by (simp add: heapFresh_def evictionWorld_def)
  have o: "heap evictionWorld 0 = Some waitingABC"
    by (simp add: evictionWorld_def)
  note inst = score_keys_never_shrink [OF f o,
      where topics = topics3 and evs = evictionTrace and now = 301500]
  have a: "heap (sweep 301500 evictionWorld) = heap evictionWorld"
    using inst by blast
  have b: "heap (leaveLobby ''ROOM42'' ''Bob'' 302000 evictionWorld) = heap evictionWorld"
    using score_keys_never_shrink [OF f o,
      where c = "''ROOM42''" and u = "''Bob''" and now = 302000]
    by blast
  have c: "heap (disconnect 2 302000 evictionWorld) = heap evictionWorld"
    using score_keys_never_shrink [OF f o, where sid = 2 and now = 302000]
    by blast
  have d: "\<exists>g'. heap (run topics3 evictionTrace evictionWorld) 0 = Some g' \<and>
          dom (scores waitingABC) \<subseteq> dom (scores g')"
    using inst by blast
  have f': "heapFresh staleWorld"
    by (simp add: heapFresh_def staleWorld_def worldOf_def)
  have o': "heap staleWorld 0 = Some scoreboardStale"
    by (simp add: staleWorld_def)
  have l: "lobbies staleWorld ''ROOM42'' = Some lobbyAB \<and> gameStates staleWorld ''ROOM42'' = Some 0 \<and>
      (case sockets staleWorld 1 of None \<Rightarrow> None | Some s \<Rightarrow> sockUsername s) = Some (host lobbyAB)"
    by (simp add: staleWorld_def lobbyAB_def)
  from score_keys_never_shrink [OF f' o', where c = "''ROOM42''" and sid = 1] l
  have "\<exists>g'. heap (restartGame 1 ''ROOM42'' staleWorld) 0 = Some g' \<and>
      (\<forall>n. scores g' n =
         (if n \<in> username ` set (participants lobbyAB) \<and> n \<noteq> ''__proto__'' then Some (Num 0)
          else scores scoreboardStale n))"
    by blast
  then have e: "\<exists>g'. heap (restartGame 1 ''ROOM42'' staleWorld) 0 = Some g' \<and>
          scores g' ''Ann'' = Some (Num 0) \<and> scores g' ''Bob'' = Some (Num 0) \<and>
          scores g' ''Cat'' = Some (Num 7)"
    by (auto simp: lobbyAB_def scoreboardStale_def scoreboardAB_def)
  have r0: "rosterOf evictionWorld ''ROOM42'' = Some [''Ann'', ''Bob'', ''Cat''] \<and>
      scoreView evictionWorld 0 [''Ann'', ''Bob'', ''Cat'']
        = Some [Some (Num 4), Some (Num 3), Some (Num 7)]"
    by (simp add: rosterOf_def scoreView_def evictionWorld_def lobbyCatAway_def waitingABC_def)
  have r1: "rosterOf (sweep 301500 evictionWorld) ''ROOM42'' = Some [''Ann'', ''Bob'']"
    by (simp add: model_defs rosterOf_def evictionWorld_def lobbyCatAway_def waitingABC_def)
  have r2: "rosterOf (leaveLobby ''ROOM42'' ''Bob'' 302000 evictionWorld) ''ROOM42''
      = Some [''Ann'', ''Cat'']"
    by (simp add: model_defs rosterOf_def evictionWorld_def lobbyCatAway_def waitingABC_def)
  have r3: "rosterOf (disconnect 2 302000 evictionWorld) ''ROOM42'' = Some [''Ann'', ''Cat'']"
    by (simp add: model_defs rosterOf_def evictionWorld_def lobbyCatAway_def waitingABC_def)
  have r4: "rosterOf (run topics3 evictionTrace evictionWorld) ''ROOM42'' = Some [''Ann''] \<and>
      scoreView (run topics3 evictionTrace evictionWorld) 0 [''Ann'', ''Bob'', ''Cat'']
        = Some [Some (Num 0), Some (Num 3), Some (Num 7)]"
    by (simp add: model_defs rosterOf_def scoreView_def evictionTrace_def evictionWorld_def
        lobbyCatAway_def waitingABC_def)
  from a b c d e r0 r1 r2 r3 r4 show ?thesis by simp
qed
end
